theory Spec2Isabelle
  imports Complex_Main
begin

section \<open>JavaScript numbers\<close>

text \<open>
  A JavaScript number is modelled as NaN, one of the two infinities, or a finite real.
  Finite arithmetic is exact: rounding to a double, overflow of finite values and the sign
  of zero are not modelled (a zero divisor counts as \<open>+0\<close>).  So \<open>Math.PI\<close> is \<open>pi\<close>, a
  decimal literal is the number it spells, and \<open>Math.sin\<close>, \<open>Math.acos\<close> and the like are
  the real functions.  The special values follow IEEE 754 as JavaScript exposes them: NaN
  is absorbing, every comparison with NaN is false, \<open>Infinity - Infinity\<close> and
  \<open>0 * Infinity\<close> are NaN.  Where the outcome of the program hinges on a rounding error,
  the property is stated on the validation step, for the values the program has computed
  in doubles, and is not derived from the arithmetic of the model.
\<close>

datatype num = NaN | PInf | NInf | Fin real

instantiation num :: "{plus, minus, times, inverse, ord}"
begin

fun plus_num :: "num \<Rightarrow> num \<Rightarrow> num" where
  "plus_num (Fin x) (Fin y) = Fin (x + y)"
| "plus_num NaN _ = NaN"
| "plus_num _ NaN = NaN"
| "plus_num PInf NInf = NaN"
| "plus_num NInf PInf = NaN"
| "plus_num PInf _ = PInf"
| "plus_num _ PInf = PInf"
| "plus_num NInf _ = NInf"
| "plus_num _ NInf = NInf"

fun minus_num :: "num \<Rightarrow> num \<Rightarrow> num" where
  "minus_num (Fin x) (Fin y) = Fin (x - y)"
| "minus_num NaN _ = NaN"
| "minus_num _ NaN = NaN"
| "minus_num PInf PInf = NaN"
| "minus_num NInf NInf = NaN"
| "minus_num PInf _ = PInf"
| "minus_num _ NInf = PInf"
| "minus_num NInf _ = NInf"
| "minus_num _ PInf = NInf"

fun times_num :: "num \<Rightarrow> num \<Rightarrow> num" where
  "times_num (Fin x) (Fin y) = Fin (x * y)"
| "times_num NaN _ = NaN"
| "times_num _ NaN = NaN"
| "times_num PInf PInf = PInf"
| "times_num PInf NInf = NInf"
| "times_num NInf PInf = NInf"
| "times_num NInf NInf = PInf"
| "times_num PInf (Fin y) = (if y = 0 then NaN else if 0 < y then PInf else NInf)"
| "times_num NInf (Fin y) = (if y = 0 then NaN else if 0 < y then NInf else PInf)"
| "times_num (Fin x) PInf = (if x = 0 then NaN else if 0 < x then PInf else NInf)"
| "times_num (Fin x) NInf = (if x = 0 then NaN else if 0 < x then NInf else PInf)"

fun inverse_num :: "num \<Rightarrow> num" where
  "inverse_num (Fin x) = (if x = 0 then PInf else Fin (1 / x))"
| "inverse_num NaN = NaN"
| "inverse_num _ = Fin 0"

fun divide_num :: "num \<Rightarrow> num \<Rightarrow> num" where
  "divide_num (Fin x) (Fin y) =
     (if y = 0 then (if x = 0 then NaN else if 0 < x then PInf else NInf) else Fin (x / y))"
| "divide_num NaN _ = NaN"
| "divide_num _ NaN = NaN"
| "divide_num (Fin x) _ = Fin 0"
| "divide_num PInf (Fin y) = (if 0 \<le> y then PInf else NInf)"
| "divide_num NInf (Fin y) = (if 0 \<le> y then NInf else PInf)"
| "divide_num _ _ = NaN"

fun less_eq_num :: "num \<Rightarrow> num \<Rightarrow> bool" where
  "less_eq_num (Fin x) (Fin y) = (x \<le> y)"
| "less_eq_num NaN _ = False"
| "less_eq_num _ NaN = False"
| "less_eq_num NInf _ = True"
| "less_eq_num _ PInf = True"
| "less_eq_num _ _ = False"

fun less_num :: "num \<Rightarrow> num \<Rightarrow> bool" where
  "less_num (Fin x) (Fin y) = (x < y)"
| "less_num NaN _ = False"
| "less_num _ NaN = False"
| "less_num PInf _ = False"
| "less_num _ NInf = False"
| "less_num _ _ = True"

instance ..

end

text \<open>\<open>x ** 2\<close>\<close>

fun pow2 :: "num \<Rightarrow> num" where
  "pow2 (Fin x) = Fin (x * x)"
| "pow2 NaN = NaN"
| "pow2 _ = PInf"

text \<open>\<open>x == y\<close> and \<open>x === y\<close> on two numbers\<close>

fun num_eq :: "num \<Rightarrow> num \<Rightarrow> bool" where
  "num_eq NaN _ = False"
| "num_eq _ NaN = False"
| "num_eq x y = (x = y)"

fun Number_isNaN :: "num \<Rightarrow> bool" where
  "Number_isNaN NaN = True"
| "Number_isNaN _ = False"

fun Math_abs :: "num \<Rightarrow> num" where
  "Math_abs (Fin x) = Fin \<bar>x\<bar>"
| "Math_abs NaN = NaN"
| "Math_abs _ = PInf"

fun Math_sin :: "num \<Rightarrow> num" where
  "Math_sin (Fin x) = Fin (sin x)"
| "Math_sin _ = NaN"

fun Math_cos :: "num \<Rightarrow> num" where
  "Math_cos (Fin x) = Fin (cos x)"
| "Math_cos _ = NaN"

fun Math_acos :: "num \<Rightarrow> num" where
  "Math_acos (Fin x) = (if - 1 \<le> x \<and> x \<le> 1 then Fin (arccos x) else NaN)"
| "Math_acos _ = NaN"

fun Math_asin :: "num \<Rightarrow> num" where
  "Math_asin (Fin x) = (if - 1 \<le> x \<and> x \<le> 1 then Fin (arcsin x) else NaN)"
| "Math_asin _ = NaN"

fun Math_sqrt :: "num \<Rightarrow> num" where
  "Math_sqrt (Fin x) = (if 0 \<le> x then Fin (sqrt x) else NaN)"
| "Math_sqrt PInf = PInf"
| "Math_sqrt _ = NaN"

text \<open>\<open>Math.hypot\<close> with two arguments: an infinite argument wins over NaN.\<close>

fun Math_hypot :: "num \<Rightarrow> num \<Rightarrow> num" where
  "Math_hypot (Fin x) (Fin y) = Fin (sqrt (x * x + y * y))"
| "Math_hypot PInf _ = PInf"
| "Math_hypot NInf _ = PInf"
| "Math_hypot _ PInf = PInf"
| "Math_hypot _ NInf = PInf"
| "Math_hypot _ _ = NaN"

definition Math_PI :: num where
  "Math_PI = Fin pi"

text \<open>The constants at the head of \<open>index.js\<close>.\<close>

definition toRad :: num where
  "toRad = Math_PI / Fin 180"

definition toDeg :: num where
  "toDeg = Fin 180 / Math_PI"

definition angleSum :: num where
  "angleSum = Math_PI"

definition order :: "string list" where
  "order = [''a'', ''gamma'', ''b'', ''alpha'', ''c'', ''beta'']"


section \<open>JavaScript values\<close>

text \<open>
  The primitive values a caller can put into a quantity, a coordinate or the mode.
  Strings are sequences of 8-bit characters.
\<close>

datatype prim = Undefined | Null | Bool bool | Num num | Str string

text \<open>A point argument: a primitive, an array of primitives, or a plain object
  (its own properties in lookup order).\<close>

datatype jsval = Prim prim | Arr "prim list" | Obj "(string \<times> prim) list"

datatype exn = TypeError

subsection \<open>String to number\<close>

definition is_ws :: "char \<Rightarrow> bool" where
  "is_ws ch = (ch \<in> set [CHR 0x09, CHR 0x0A, CHR 0x0B, CHR 0x0C, CHR 0x0D, CHR 0x20, CHR 0xA0])"

definition str_trim :: "string \<Rightarrow> string" where
  "str_trim s = rev (dropWhile is_ws (rev (dropWhile is_ws s)))"

definition digit_of :: "char \<Rightarrow> nat option" where
  "digit_of ch =
     (let k = (of_char ch :: nat) in
      if 48 \<le> k \<and> k \<le> 57 then Some (k - 48)
      else if 97 \<le> k \<and> k \<le> 102 then Some (k - 87)
      else if 65 \<le> k \<and> k \<le> 70 then Some (k - 55)
      else None)"

fun digits_in :: "nat \<Rightarrow> string \<Rightarrow> nat \<Rightarrow> nat option" where
  "digits_in base [] acc = Some acc"
| "digits_in base (ch # cs) acc =
     (case digit_of ch of
        None \<Rightarrow> None
      | Some d \<Rightarrow> if d < base then digits_in base cs (acc * base + d) else None)"

definition parse_int :: "nat \<Rightarrow> string \<Rightarrow> num" where
  "parse_int base s =
     (if s = [] then NaN
      else case digits_in base s 0 of None \<Rightarrow> NaN | Some n \<Rightarrow> Fin (real n))"

definition parse_exponent :: "string \<Rightarrow> (bool \<times> nat) option" where
  "parse_exponent s =
     (let neg = (s \<noteq> [] \<and> hd s = CHR ''-'');
          ds = (if s \<noteq> [] \<and> (hd s = CHR ''-'' \<or> hd s = CHR ''+'') then tl s else s)
      in if ds = [] then None
         else case digits_in 10 ds 0 of None \<Rightarrow> None | Some k \<Rightarrow> Some (neg, k))"

definition parse_decimal :: "string \<Rightarrow> real option" where
  "parse_decimal s =
     (let is_e = (\<lambda>ch. ch = CHR ''e'' \<or> ch = CHR ''E'');
          m = takeWhile (\<lambda>ch. \<not> is_e ch) s;
          ex = dropWhile (\<lambda>ch. \<not> is_e ch) s;
          ip = takeWhile (\<lambda>ch. ch \<noteq> CHR ''.'') m;
          fp0 = dropWhile (\<lambda>ch. ch \<noteq> CHR ''.'') m;
          fp = (if fp0 = [] then [] else tl fp0)
      in if ip = [] \<and> fp = [] then None
         else case (digits_in 10 ip 0, digits_in 10 fp 0) of
                (Some i, Some f) \<Rightarrow>
                  (let mant = real i + real f / 10 ^ length fp
                   in if ex = [] then Some mant
                      else case parse_exponent (tl ex) of
                             None \<Rightarrow> None
                           | Some (neg, k) \<Rightarrow>
                               Some (if neg then mant / 10 ^ k else mant * 10 ^ k))
              | _ \<Rightarrow> None)"

text \<open>The number a string converts to: blank is 0, then the prefixed integer literals,
  the signed \<open>Infinity\<close> and the signed decimal literals; anything else is NaN.\<close>

definition StringToNumber :: "string \<Rightarrow> num" where
  "StringToNumber s =
     (let t = str_trim s in
      if t = [] then Fin 0
      else if take 2 t = ''0x'' \<or> take 2 t = ''0X'' then parse_int 16 (drop 2 t)
      else if take 2 t = ''0o'' \<or> take 2 t = ''0O'' then parse_int 8 (drop 2 t)
      else if take 2 t = ''0b'' \<or> take 2 t = ''0B'' then parse_int 2 (drop 2 t)
      else let neg = (hd t = CHR ''-'');
               u = (if hd t = CHR ''-'' \<or> hd t = CHR ''+'' then tl t else t)
           in if u = ''Infinity'' then (if neg then NInf else PInf)
              else case parse_decimal u of
                     None \<Rightarrow> NaN
                   | Some r \<Rightarrow> Fin (if neg then - r else r))"

subsection \<open>Coercions\<close>

text \<open>\<open>Number(v)\<close>, which is also what the arithmetic operators apply to an operand.\<close>

fun Number :: "prim \<Rightarrow> num" where
  "Number Undefined = NaN"
| "Number Null = Fin 0"
| "Number (Bool b) = Fin (if b then 1 else 0)"
| "Number (Num n) = n"
| "Number (Str s) = StringToNumber s"

text \<open>Truthiness, as \<open>if (v)\<close>, \<open>!v\<close> and \<open>&&\<close> test it.\<close>

fun truthy :: "prim \<Rightarrow> bool" where
  "truthy Undefined = False"
| "truthy Null = False"
| "truthy (Bool b) = b"
| "truthy (Num n) = (n \<noteq> NaN \<and> n \<noteq> Fin 0)"
| "truthy (Str s) = (s \<noteq> [])"

fun typeof :: "jsval \<Rightarrow> string" where
  "typeof (Prim Undefined) = ''undefined''"
| "typeof (Prim Null) = ''object''"
| "typeof (Prim (Bool b)) = ''boolean''"
| "typeof (Prim (Num n)) = ''number''"
| "typeof (Prim (Str s)) = ''string''"
| "typeof (Arr xs) = ''object''"
| "typeof (Obj kvs) = ''object''"

text \<open>The global \<open>isNaN\<close> converts its argument first.\<close>

definition isNaN :: "prim \<Rightarrow> bool" where
  "isNaN v = Number_isNaN (Number v)"

text \<open>The remainder operator \<open>%\<close> on integers: the sign follows the dividend.\<close>

definition rem_js :: "int \<Rightarrow> int \<Rightarrow> int" where
  "rem_js i n = sgn i * (\<bar>i\<bar> mod \<bar>n\<bar>)"

text \<open>Reading an array element: outside the array the value is \<open>undefined\<close>.\<close>

definition aget :: "prim list \<Rightarrow> int \<Rightarrow> prim" where
  "aget xs i = (if 0 \<le> i \<and> i < int (length xs) then xs ! nat i else Undefined)"

text \<open>Writing an array element.  Every write of the program is at an index inside the
  array; a write at a negative index would add a property and leave the elements alone.\<close>

definition aset :: "prim list \<Rightarrow> int \<Rightarrow> num \<Rightarrow> prim list" where
  "aset xs i x = (if 0 \<le> i \<and> i < int (length xs) then xs[nat i := Num x] else xs)"

text \<open>An array element read as an operand of arithmetic.\<close>

definition num_at :: "prim list \<Rightarrow> int \<Rightarrow> num" where
  "num_at xs i = Number (aget xs i)"


section \<open>The result envelope\<close>

text \<open>
  The error strings of the program, one constructor for each message template, carrying
  the values the template interpolates.
\<close>

datatype err =
    UnknownMode prim
  | IllegalSide string prim
  | IllegalAngle string prim
  | TooFewParameters
  | NoSideLength
  | ImpossibleSides prim prim prim
  | NoSolution
  | InputConflict string prim prim
  | IllegalParameter string jsval
  | RepeatedCoordinates string jsval string jsval

record point =
  px :: num
  py :: num

record circle =
  radius :: num
  center :: "point option"

text \<open>A \<open>triangleSolution\<close>; \<open>sol_a\<close> is its property \<open>a\<close>, and so on.\<close>

record solution =
  sol_a :: num
  sol_b :: num
  sol_c :: num
  sol_alpha :: num
  sol_beta :: num
  sol_gamma :: num
  sol_area :: num
  sol_incircle :: circle
  sol_circumcircle :: circle
  sol_ha :: num
  sol_hb :: num
  sol_hc :: num

text \<open>The argument of \<open>solve\<close>; a property that is absent is \<open>Undefined\<close>.\<close>

record triangleToSolve =
  t_a :: prim
  t_b :: prim
  t_c :: prim
  t_alpha :: prim
  t_beta :: prim
  t_gamma :: prim
  t_mode :: prim

text \<open>The \<open>solveResult\<close> object: the echoed parameters by name, the solutions and the
  error (\<open>None\<close> while the property \<open>error\<close> is not set).\<close>

record solveResult =
  props :: "string \<rightharpoonup> prim"
  solutions :: "solution list"
  error :: "err option"

definition getprop :: "solveResult \<Rightarrow> string \<Rightarrow> prim" where
  "getprop result k = (case props result k of None \<Rightarrow> Undefined | Some v \<Rightarrow> v)"


section \<open>Validation of a candidate: \<open>addSolutionToResult\<close>\<close>

definition equalFloat :: "prim \<Rightarrow> prim \<Rightarrow> num \<Rightarrow> bool" where
  "equalFloat f1 f2 maxDifference = (Math_abs (Number f1 - Number f2) \<le> maxDifference)"

definition incircleRadius :: "num \<Rightarrow> num \<Rightarrow> num \<Rightarrow> num" where
  "incircleRadius a b c =
     (let s = Fin (1 / 2) * (a + b + c)
      in Math_sqrt (((s - a) * (s - b) * (s - c)) / s))"

text \<open>The calculated value of slot \<open>i\<close> in the unit of the input: an angle (odd
  index) is converted back.\<close>

definition calculatedValue :: "prim list \<Rightarrow> num \<Rightarrow> int \<Rightarrow> prim" where
  "calculatedValue valArray modeOutConv i =
     (if rem_js i 2 = 1 then Num (modeOutConv * num_at valArray i) else aget valArray i)"

text \<open>The loop over \<open>order\<close> that compares each given value with the calculated one;
  it stops at the first mismatch.\<close>

fun conflict_loop :: "int list \<Rightarrow> prim list \<Rightarrow> solveResult \<Rightarrow> num \<Rightarrow> err option" where
  "conflict_loop [] valArray result modeOutConv = None"
| "conflict_loop (i # rest) valArray result modeOutConv =
     (let property = order ! nat i
      in if truthy (getprop result property)
            \<and> \<not> equalFloat (getprop result property)
                  (calculatedValue valArray modeOutConv i) (Fin (1 / 1000))
         then Some (InputConflict property (getprop result property)
                      (calculatedValue valArray modeOutConv i))
         else conflict_loop rest valArray result modeOutConv)"

text \<open>The solution object built from a candidate.  The side slots hold numbers when the
  candidate comes from \<open>solve\<close>, so reading them as numbers copies them.\<close>

definition make_solution :: "prim list \<Rightarrow> num \<Rightarrow> solution" where
  "make_solution valArray modeOutConv =
     (let a = num_at valArray 0;
          b = num_at valArray 2;
          c = num_at valArray 4;
          circumradius = (num_at valArray 0 / Math_sin (num_at valArray 3)) / Fin 2
      in \<lparr> sol_a = a, sol_b = b, sol_c = c,
           sol_alpha = modeOutConv * num_at valArray 3,
           sol_beta = modeOutConv * num_at valArray 5,
           sol_gamma = modeOutConv * num_at valArray 1,
           sol_area = Fin (1 / 2) * num_at valArray 0 * num_at valArray 2
                        * Math_sin (num_at valArray 1),
           sol_incircle =
             \<lparr> radius = incircleRadius (num_at valArray 0) (num_at valArray 2) (num_at valArray 4),
               center = None \<rparr>,
           sol_circumcircle = \<lparr> radius = circumradius, center = None \<rparr>,
           sol_ha = (b * c) / (Fin 2 * circumradius),
           sol_hb = (a * c) / (Fin 2 * circumradius),
           sol_hc = (a * b) / (Fin 2 * circumradius) \<rparr>)"

text \<open>The factor that converts an angle back to the unit of the result's mode.\<close>

definition modeOutConv_of :: "solveResult \<Rightarrow> num" where
  "modeOutConv_of result = (if getprop result ''mode'' = Str ''deg'' then toDeg else Fin 1)"

definition addSolutionToResult :: "prim list \<Rightarrow> solveResult \<Rightarrow> nat \<Rightarrow> solveResult" where
  "addSolutionToResult valArray result parameterCount =
     (let modeOutConv = modeOutConv_of result
      in case (if parameterCount > 3
               then conflict_loop [0, 1, 2, 3, 4, 5] valArray result modeOutConv
               else None) of
           Some e \<Rightarrow> result\<lparr>error := Some e\<rparr>
         | None \<Rightarrow>
             if list_ex (\<lambda>x. Number x \<le> Fin 0 \<or> Number x \<ge> angleSum)
                  [aget valArray 1, aget valArray 3, aget valArray 5]
             then result\<lparr>error := Some NoSolution\<rparr>
             else if list_ex (\<lambda>x. Number x \<le> Fin 0)
                       [aget valArray 0, aget valArray 2, aget valArray 4]
             then result\<lparr>error := Some NoSolution\<rparr>
             else result\<lparr>solutions := solutions result @ [make_solution valArray modeOutConv]\<rparr>)"


section \<open>\<open>solve\<close>\<close>

text \<open>The two loops that validate the given sides and angles, convert them to numbers
  (angles to radians) and record the first index and the count.\<close>

fun validate_sides ::
  "int list \<Rightarrow> prim list \<Rightarrow> int \<Rightarrow> nat \<Rightarrow> err + (prim list \<times> int \<times> nat)" where
  "validate_sides [] valArray firstSide sideCount = Inr (valArray, firstSide, sideCount)"
| "validate_sides (i # rest) valArray firstSide sideCount =
     (if aget valArray i = Undefined then validate_sides rest valArray firstSide sideCount
      else let n = Number (aget valArray i)
           in if Number_isNaN n \<or> n \<le> Fin 0
              then Inl (IllegalSide (order ! nat i) (aget valArray i))
              else validate_sides rest (aset valArray i n)
                     (if firstSide < 0 then i else firstSide) (sideCount + 1))"

fun validate_angles ::
  "int list \<Rightarrow> num \<Rightarrow> prim list \<Rightarrow> int \<Rightarrow> nat \<Rightarrow> err + (prim list \<times> int \<times> nat)" where
  "validate_angles [] modeInConv valArray firstAngle angleCount =
     Inr (valArray, firstAngle, angleCount)"
| "validate_angles (i # rest) modeInConv valArray firstAngle angleCount =
     (if aget valArray i = Undefined
      then validate_angles rest modeInConv valArray firstAngle angleCount
      else let n = Number (aget valArray i) * modeInConv
           in if Number_isNaN n \<or> n \<le> Fin 0 \<or> n \<ge> angleSum
              then Inl (IllegalAngle (order ! nat i) (aget valArray i))
              else validate_angles rest modeInConv (aset valArray i n)
                     (if firstAngle < 0 then i else firstAngle) (angleCount + 1))"

text \<open>The index \<open>(first + k) % 6\<close>.\<close>

definition slot :: "int \<Rightarrow> int \<Rightarrow> int" where
  "slot first k = rem_js (first + k) 6"

subsection \<open>The case branches\<close>

text \<open>SSS reads the sides from the parameters \<open>a\<close>, \<open>b\<close>, \<open>c\<close> as they were passed.\<close>

definition solve_SSS ::
  "prim \<Rightarrow> prim \<Rightarrow> prim \<Rightarrow> prim list \<Rightarrow> solveResult \<Rightarrow> nat \<Rightarrow> solveResult" where
  "solve_SSS a b c valArray result parameterCount =
     (let v1 = aset valArray 3
                 (Math_acos ((pow2 (Number b) + pow2 (Number c) - pow2 (Number a))
                             / (Fin 2 * Number b * Number c)));
          v2 = aset v1 5
                 (Math_acos ((pow2 (Number a) + pow2 (Number c) - pow2 (Number b))
                             / (Fin 2 * Number a * Number c)));
          v3 = aset v2 1 (angleSum - num_at v2 3 - num_at v2 5)
      in if list_ex (\<lambda>x. \<not> truthy x) v3
         then result\<lparr>error := Some (ImpossibleSides a b c)\<rparr>
         else addSolutionToResult v3 result parameterCount)"

definition solve_ASA :: "prim list \<Rightarrow> int \<Rightarrow> solveResult \<Rightarrow> nat \<Rightarrow> solveResult" where
  "solve_ASA valArray firstSide result parameterCount =
     (let thirdAngleIndex = slot firstSide 3;
          v1 = aset valArray thirdAngleIndex
                 (angleSum - num_at valArray (slot firstSide 5) - num_at valArray (slot firstSide 1));
          v2 = aset v1 (slot firstSide 2)
                 (num_at v1 firstSide
                    * (Math_sin (num_at v1 (slot firstSide 5)) / Math_sin (num_at v1 thirdAngleIndex)));
          v3 = aset v2 (slot firstSide 4)
                 (num_at v2 firstSide
                    * (Math_sin (num_at v2 (slot firstSide 7)) / Math_sin (num_at v2 thirdAngleIndex)))
      in addSolutionToResult v3 result parameterCount)"

definition solve_SAS :: "prim list \<Rightarrow> int \<Rightarrow> solveResult \<Rightarrow> nat \<Rightarrow> solveResult" where
  "solve_SAS valArray firstAngle result parameterCount =
     (let side1 = num_at valArray (slot firstAngle 5);
          side2 = num_at valArray (slot firstAngle 1);
          side3 = Math_sqrt (pow2 side1 + pow2 side2
                              - Fin 2 * side1 * side2 * Math_cos (num_at valArray firstAngle));
          v1 = aset valArray (slot firstAngle 3) side3;
          v2 = aset v1 (slot firstAngle 2)
                 (Math_acos ((pow2 side3 + pow2 side2 - pow2 side1) / (Fin 2 * side3 * side2)));
          v3 = aset v2 (slot firstAngle 4)
                 (angleSum - num_at v2 (slot firstAngle 2) - num_at v2 firstAngle)
      in addSolutionToResult v3 result parameterCount)"

definition solve_SAA :: "prim list \<Rightarrow> int \<Rightarrow> solveResult \<Rightarrow> nat \<Rightarrow> solveResult" where
  "solve_SAA valArray firstSide result parameterCount =
     (let v1 = aset valArray (slot firstSide 5)
                 (angleSum - num_at valArray (slot firstSide 1) - num_at valArray (slot firstSide 3));
          v2 = aset v1 (slot firstSide 2)
                 (num_at v1 firstSide
                    * (Math_sin (num_at v1 (slot firstSide 5)) / Math_sin (num_at v1 (slot firstSide 3))));
          v3 = aset v2 (slot firstSide 4)
                 (num_at v2 firstSide
                    * (Math_sin (num_at v2 (slot firstSide 7)) / Math_sin (num_at v2 (slot firstSide 3))))
      in addSolutionToResult v3 result parameterCount)"

definition solve_AAS :: "prim list \<Rightarrow> int \<Rightarrow> solveResult \<Rightarrow> nat \<Rightarrow> solveResult" where
  "solve_AAS valArray firstSide result parameterCount =
     (let v1 = aset valArray (slot firstSide 1)
                 (angleSum - num_at valArray (slot firstSide 5) - num_at valArray (slot firstSide 3));
          v2 = aset v1 (slot firstSide 2)
                 (num_at v1 firstSide
                    * (Math_sin (num_at v1 (slot firstSide 5)) / Math_sin (num_at v1 (slot firstSide 3))));
          v3 = aset v2 (slot firstSide 4)
                 (num_at v2 firstSide
                    * (Math_sin (num_at v2 (slot firstSide 7)) / Math_sin (num_at v2 (slot firstSide 3))))
      in addSolutionToResult v3 result parameterCount)"

text \<open>One candidate of the SSA branch: the unknown angle \<open>u\<close> goes to slot
  \<open>firstAngle + 2\<close>, then the remaining angle and the remaining side are derived.\<close>

definition ssa_candidate :: "prim list \<Rightarrow> int \<Rightarrow> num \<Rightarrow> num \<Rightarrow> num \<Rightarrow> prim list" where
  "ssa_candidate valArray firstAngle s1 angle u =
     (let v1 = aset valArray (slot firstAngle 2) u;
          v2 = aset v1 (slot firstAngle 4) (angleSum - angle - num_at v1 (slot firstAngle 2))
      in aset v2 (slot firstAngle 1)
           (s1 * (Math_sin (num_at v2 (slot firstAngle 4)) / Math_sin angle)))"

definition solve_SSA :: "prim list \<Rightarrow> int \<Rightarrow> solveResult \<Rightarrow> nat \<Rightarrow> solveResult" where
  "solve_SSA valArray firstAngle result parameterCount =
     (let s1 = num_at valArray (slot firstAngle 3);
          s2 = num_at valArray (slot firstAngle 5);
          angle = num_at valArray firstAngle;
          D = (s2 / s1) * Math_sin angle
      in if D > Fin 1 then result\<lparr>error := Some NoSolution\<rparr>
         else if s1 \<ge> s2
         then addSolutionToResult
                (ssa_candidate valArray firstAngle s1 angle
                   (if num_eq D (Fin 1) then Math_PI / Fin 2 else Math_asin D))
                result parameterCount
         else let mysteryAngle = Math_asin D;
                  first = ssa_candidate valArray firstAngle s1 angle mysteryAngle;
                  result1 = addSolutionToResult first result parameterCount;
                  second = ssa_candidate first firstAngle s1 angle (angleSum - mysteryAngle)
              in addSolutionToResult second result1 parameterCount)"

text \<open>One candidate of the ASS branch: the unknown angle goes to slot \<open>firstAngle + 4\<close>.\<close>

definition ass_candidate :: "prim list \<Rightarrow> int \<Rightarrow> num \<Rightarrow> num \<Rightarrow> num \<Rightarrow> prim list" where
  "ass_candidate valArray firstAngle s1 angle u =
     (let v1 = aset valArray (slot firstAngle 4) u;
          v2 = aset v1 (slot firstAngle 2) (angleSum - angle - num_at v1 (slot firstAngle 4))
      in aset v2 (slot firstAngle 5)
           (s1 * (Math_sin (num_at v2 (slot firstAngle 2)) / Math_sin angle)))"

definition solve_ASS :: "prim list \<Rightarrow> int \<Rightarrow> solveResult \<Rightarrow> nat \<Rightarrow> solveResult" where
  "solve_ASS valArray firstAngle result parameterCount =
     (let angle = num_at valArray firstAngle;
          s1 = num_at valArray (slot firstAngle 3);
          s2 = num_at valArray (slot firstAngle 1);
          D = (s2 / s1) * Math_sin angle
      in if D > Fin 1 then result\<lparr>error := Some NoSolution\<rparr>
         else if s1 \<ge> s2
         then addSolutionToResult
                (ass_candidate valArray firstAngle s1 angle
                   (if num_eq D (Fin 1) then Math_PI / Fin 2 else Math_asin D))
                result parameterCount
         else let mysteryAngle = Math_asin D;
                  first = ass_candidate valArray firstAngle s1 angle mysteryAngle;
                  result1 = addSolutionToResult first result parameterCount;
                  second = ass_candidate first firstAngle s1 angle (angleSum - mysteryAngle)
              in addSolutionToResult second result1 parameterCount)"

subsection \<open>The branch conditions, in the order the chain tests them\<close>

definition is_ASA :: "prim list \<Rightarrow> int \<Rightarrow> bool" where
  "is_ASA valArray firstSide =
     (truthy (aget valArray (slot firstSide 5)) \<and> truthy (aget valArray (slot firstSide 1)))"

definition is_SAS :: "prim list \<Rightarrow> int \<Rightarrow> bool" where
  "is_SAS valArray firstAngle =
     (truthy (aget valArray (slot firstAngle 5)) \<and> truthy (aget valArray (slot firstAngle 1)))"

definition is_SAA :: "prim list \<Rightarrow> int \<Rightarrow> bool" where
  "is_SAA valArray firstSide =
     (truthy (aget valArray (slot firstSide 1)) \<and> truthy (aget valArray (slot firstSide 3)))"

definition is_AAS :: "prim list \<Rightarrow> int \<Rightarrow> bool" where
  "is_AAS valArray firstSide =
     (truthy (aget valArray (slot firstSide 5)) \<and> truthy (aget valArray (slot firstSide 3)))"

definition is_SSA :: "prim list \<Rightarrow> int \<Rightarrow> bool" where
  "is_SSA valArray firstAngle =
     (truthy (aget valArray (slot firstAngle 5)) \<and> truthy (aget valArray (slot firstAngle 3)))"

definition is_ASS :: "prim list \<Rightarrow> int \<Rightarrow> bool" where
  "is_ASS valArray firstAngle =
     (truthy (aget valArray (slot firstAngle 1)) \<and> truthy (aget valArray (slot firstAngle 3)))"

text \<open>The part of \<open>solve\<close> after the two validation loops.\<close>

definition solve_cases ::
  "prim \<Rightarrow> prim \<Rightarrow> prim \<Rightarrow> prim list \<Rightarrow> int \<Rightarrow> nat \<Rightarrow> int \<Rightarrow> nat \<Rightarrow> solveResult
     \<Rightarrow> solveResult" where
  "solve_cases a b c valArray firstSide sideCount firstAngle angleCount result =
     (let parameterCount = angleCount + sideCount
      in if parameterCount < 3 then result\<lparr>error := Some TooFewParameters\<rparr>
         else if sideCount = 0 then result\<lparr>error := Some NoSideLength\<rparr>
         else if sideCount = 3 then solve_SSS a b c valArray result parameterCount
         else if is_ASA valArray firstSide then solve_ASA valArray firstSide result parameterCount
         else if is_SAS valArray firstAngle then solve_SAS valArray firstAngle result parameterCount
         else if is_SAA valArray firstSide then solve_SAA valArray firstSide result parameterCount
         else if is_AAS valArray firstSide then solve_AAS valArray firstSide result parameterCount
         else if is_SSA valArray firstAngle then solve_SSA valArray firstAngle result parameterCount
         else if is_ASS valArray firstAngle then solve_ASS valArray firstAngle result parameterCount
         else result)"

text \<open>The result object as \<open>solve\<close> first builds it, and the removal of the properties
  that are \<open>undefined\<close> or the empty string.\<close>

definition initial_result :: "triangleToSolve \<Rightarrow> prim \<Rightarrow> solveResult" where
  "initial_result t mode =
     \<lparr> props = [''a'' \<mapsto> t_a t, ''b'' \<mapsto> t_b t, ''c'' \<mapsto> t_c t, ''alpha'' \<mapsto> t_alpha t,
                ''beta'' \<mapsto> t_beta t, ''gamma'' \<mapsto> t_gamma t, ''mode'' \<mapsto> mode],
       solutions = [], error = None \<rparr>"

definition remove_undefined :: "solveResult \<Rightarrow> solveResult" where
  "remove_undefined result =
     result\<lparr>props := (\<lambda>p. case props result p of
                              None \<Rightarrow> None
                            | Some v \<Rightarrow> if v = Undefined \<or> v = Str [] then None else Some v)\<rparr>"

definition solve :: "triangleToSolve \<Rightarrow> solveResult" where
  "solve t =
     (let mode = (if t_mode t = Undefined then Str ''deg'' else t_mode t);
          result = remove_undefined (initial_result t mode);
          valArray = [getprop result ''a'', getprop result ''gamma'', getprop result ''b'',
                      getprop result ''alpha'', getprop result ''c'', getprop result ''beta'']
      in if mode \<noteq> Str ''deg'' \<and> mode \<noteq> Str ''rad''
         then result\<lparr>error := Some (UnknownMode mode)\<rparr>
         else let modeInConv = (if mode = Str ''deg'' then toRad else Fin 1)
              in case validate_sides [0, 2, 4] valArray (- 1) 0 of
                   Inl e \<Rightarrow> result\<lparr>error := Some e\<rparr>
                 | Inr (v1, firstSide, sideCount) \<Rightarrow>
                     (case validate_angles [1, 3, 5] modeInConv v1 (- 1) 0 of
                        Inl e \<Rightarrow> result\<lparr>error := Some e\<rparr>
                      | Inr (v2, firstAngle, angleCount) \<Rightarrow>
                          solve_cases (t_a t) (t_b t) (t_c t) v2 firstSide sideCount
                            firstAngle angleCount result))"

section \<open>Points: \<open>distance\<close> and \<open>solvePoints\<close>\<close>

definition bind_exn :: "exn + 'a \<Rightarrow> ('a \<Rightarrow> exn + 'b) \<Rightarrow> exn + 'b" where
  "bind_exn m f = (case m of Inl e \<Rightarrow> Inl e | Inr x \<Rightarrow> f x)"

text \<open>\<open>Object.hasOwn(p, k)\<close> for the keys the program asks for (\<open>x\<close>, \<open>y\<close>, \<open>X\<close>, \<open>Y\<close>):
  \<open>undefined\<close> and \<open>null\<close> cannot be converted to an object, which throws; no array
  and no wrapper of a primitive has such an own property.\<close>

fun hasOwn :: "jsval \<Rightarrow> string \<Rightarrow> exn + bool" where
  "hasOwn (Prim Undefined) k = Inl TypeError"
| "hasOwn (Prim Null) k = Inl TypeError"
| "hasOwn (Prim v) k = Inr False"
| "hasOwn (Arr xs) k = Inr False"
| "hasOwn (Obj kvs) k = Inr (map_of kvs k \<noteq> None)"

text \<open>Reading the property \<open>k\<close> of a value that has it as an own property.\<close>

fun member :: "jsval \<Rightarrow> string \<Rightarrow> prim" where
  "member (Obj kvs) k = (case map_of kvs k of None \<Rightarrow> Undefined | Some v \<Rightarrow> v)"
| "member _ k = Undefined"

text \<open>The result \<open>None\<close> is the \<open>null\<close> that \<open>pointToArray\<close> returns.\<close>

definition pointToArray :: "jsval \<Rightarrow> exn + prim list option" where
  "pointToArray point =
     (case point of
        Arr xs \<Rightarrow> Inr (Some xs)
      | _ \<Rightarrow>
          bind_exn (hasOwn point ''x'') (\<lambda>hx.
            if hx then Inr (Some [member point ''x'', member point ''y''])
            else bind_exn (hasOwn point ''X'') (\<lambda>hX.
              if hX then Inr (Some [member point ''X'', member point ''Y''])
              else Inr None)))"

text \<open>Indexing \<open>null\<close> throws.\<close>

definition distance :: "jsval \<Rightarrow> jsval \<Rightarrow> exn + num" where
  "distance p1 p2 =
     bind_exn (pointToArray p1) (\<lambda>q1.
     bind_exn (pointToArray p2) (\<lambda>q2.
       case (q1, q2) of
         (Some a1, Some a2) \<Rightarrow>
           Inr (Math_hypot (Number (aget a1 0) - Number (aget a2 0))
                           (Number (aget a1 1) - Number (aget a2 1)))
       | _ \<Rightarrow> Inl TypeError))"

definition checkCoordinate :: "jsval \<Rightarrow> exn + bool" where
  "checkCoordinate p =
     (if typeof p \<noteq> ''object'' then Inr False
      else case p of
             Arr xs \<Rightarrow>
               if length xs \<ge> 2 then Inr (\<not> isNaN (aget xs 0) \<and> \<not> isNaN (aget xs 1))
               else bind_exn (hasOwn p ''x'') (\<lambda>hx. bind_exn (hasOwn p ''X'') (\<lambda>hX. Inr False))
           | _ \<Rightarrow>
               bind_exn (hasOwn p ''x'') (\<lambda>hx.
               bind_exn (if hx then hasOwn p ''y'' else Inr False) (\<lambda>hxy.
                 if hxy then Inr (\<not> isNaN (member p ''x'') \<and> \<not> isNaN (member p ''y''))
                 else bind_exn (hasOwn p ''X'') (\<lambda>hX.
                      bind_exn (if hX then hasOwn p ''Y'' else Inr False) (\<lambda>hXY.
                        if hXY then Inr (\<not> isNaN (member p ''X'') \<and> \<not> isNaN (member p ''Y''))
                        else Inr False)))))"

text \<open>\<open>hom[i]\<close>\<close>

definition hom_at :: "num list \<Rightarrow> nat \<Rightarrow> num" where
  "hom_at hom i = (if i < length hom then hom ! i else NaN)"

definition barycentricToCartesian ::
  "jsval \<Rightarrow> jsval \<Rightarrow> jsval \<Rightarrow> num list \<Rightarrow> exn + point" where
  "barycentricToCartesian p1 p2 p3 bary =
     (let barSum = foldl (\<lambda>s c. s + c) (Fin 0) bary;
          hom = map (\<lambda>c. c / barSum) bary
      in bind_exn (pointToArray p1) (\<lambda>q1.
         bind_exn (pointToArray p2) (\<lambda>q2.
         bind_exn (pointToArray p3) (\<lambda>q3.
           case (q1, q2, q3) of
             (Some a1, Some a2, Some a3) \<Rightarrow>
               Inr \<lparr> px = foldl (\<lambda>s (c, i). s + hom_at hom i * Number (aget c 0)) (Fin 0)
                            (zip [a1, a2, a3] [0, 1, 2]),
                     py = foldl (\<lambda>s (c, i). s + hom_at hom i * Number (aget c 1)) (Fin 0)
                            (zip [a1, a2, a3] [0, 1, 2]) \<rparr>
           | _ \<Rightarrow> Inl TypeError))))"

text \<open>A solution of \<open>solvePoints\<close> has the properties of a \<open>triangleSolution\<close> (with the
  circle centers set) and the vertex-letter aliases and the centroid besides.\<close>

record pointSolution = solution +
  sol_angleA :: num
  sol_angleB :: num
  sol_angleC :: num
  sol_sideAB :: num
  sol_sideBC :: num
  sol_sideCA :: num
  sol_centroid :: point

record pointsResult =
  pt_A :: jsval
  pt_B :: jsval
  pt_C :: jsval
  pt_mode :: prim
  pt_solutions :: "pointSolution list"
  pt_error :: "err option"

definition nameArray :: "string list" where
  "nameArray = [''A'', ''B'', ''C'']"

text \<open>The first loop of \<open>solvePoints\<close>.  The message calls \<open>replaceAll\<close> on
  \<open>JSON.stringify\<close> of the point, which is \<open>undefined\<close> for \<open>undefined\<close>: that throws.\<close>

fun check_points :: "nat list \<Rightarrow> jsval list \<Rightarrow> exn + err option" where
  "check_points [] valArray = Inr None"
| "check_points (i # rest) valArray =
     bind_exn (checkCoordinate (valArray ! i)) (\<lambda>ok.
       if \<not> ok
       then (if valArray ! i = Prim Undefined then Inl TypeError
             else Inr (Some (IllegalParameter (nameArray ! i) (valArray ! i))))
       else check_points rest valArray)"

text \<open>The second loop: a point and its successor at distance 0.\<close>

fun check_repeated :: "nat list \<Rightarrow> jsval list \<Rightarrow> exn + err option" where
  "check_repeated [] valArray = Inr None"
| "check_repeated (i # rest) valArray =
     bind_exn (distance (valArray ! i) (valArray ! ((i + 1) mod 3))) (\<lambda>d.
       if num_eq d (Fin 0)
       then Inr (Some (RepeatedCoordinates (nameArray ! i) (valArray ! i)
                         (nameArray ! ((i + 1) mod 3)) (valArray ! ((i + 1) mod 3))))
       else check_repeated rest valArray)"

definition solvePoints :: "jsval \<Rightarrow> jsval \<Rightarrow> jsval \<Rightarrow> prim \<Rightarrow> exn + pointsResult" where
  "solvePoints A B C mode0 =
     (let mode = (if mode0 = Undefined then Str ''deg'' else mode0);
          result = \<lparr> pt_A = A, pt_B = B, pt_C = C, pt_mode = mode,
                     pt_solutions = [], pt_error = None \<rparr>;
          valArray = [A, B, C]
      in bind_exn (check_points [0, 1, 2] valArray) (\<lambda>bad.
         case bad of
           Some e \<Rightarrow> Inr (result\<lparr>pt_error := Some e\<rparr>)
         | None \<Rightarrow>
         bind_exn (check_repeated [0, 1, 2] valArray) (\<lambda>rep.
         case rep of
           Some e \<Rightarrow> Inr (result\<lparr>pt_error := Some e\<rparr>)
         | None \<Rightarrow>
         bind_exn (distance A B) (\<lambda>sideAB.
         bind_exn (distance B C) (\<lambda>sideBC.
         bind_exn (distance C A) (\<lambda>sideCA.
           if mode \<noteq> Str ''deg'' \<and> mode \<noteq> Str ''rad''
           then Inr (result\<lparr>pt_error := Some (UnknownMode mode)\<rparr>)
           else
             let modeOutConv = (if mode = Str ''deg'' then toDeg else Fin 1);
                 angleA = Math_acos ((pow2 sideCA + pow2 sideAB - pow2 sideBC)
                                      / (Fin 2 * sideCA * sideAB));
                 angleB = Math_acos ((pow2 sideBC + pow2 sideAB - pow2 sideCA)
                                      / (Fin 2 * sideBC * sideAB));
                 angleC = angleSum - angleA - angleB
             in if list_ex (\<lambda>x. \<not> truthy (Num x)) [angleA, angleB, angleC]
                then Inr (result\<lparr>pt_error :=
                            Some (ImpossibleSides (Num sideBC) (Num sideCA) (Num sideAB))\<rparr>)
                else
                  bind_exn (pointToArray A) (\<lambda>pA.
                  bind_exn (pointToArray B) (\<lambda>pB.
                  bind_exn (pointToArray C) (\<lambda>pC.
                    case (pA, pB, pC) of
                      (Some qA, Some qB, Some qC) \<Rightarrow>
                        bind_exn (barycentricToCartesian (Arr qA) (Arr qB) (Arr qC)
                                    [Fin 1 / Fin 3, Fin 1 / Fin 3, Fin 1 / Fin 3]) (\<lambda>centroid.
                        bind_exn (barycentricToCartesian (Arr qA) (Arr qB) (Arr qC)
                                    [sideBC, sideCA, sideAB]) (\<lambda>incenter.
                        bind_exn (barycentricToCartesian (Arr qA) (Arr qB) (Arr qC)
                                    [Math_sin (Fin 2 * angleA), Math_sin (Fin 2 * angleB),
                                     Math_sin (Fin 2 * angleC)]) (\<lambda>circumcenter.
                          let circumradius = (sideBC / Math_sin angleA) / Fin 2;
                              solution =
                                \<lparr> sol_a = sideBC, sol_b = sideCA, sol_c = sideAB,
                                  sol_alpha = modeOutConv * angleA,
                                  sol_beta = modeOutConv * angleB,
                                  sol_gamma = modeOutConv * angleC,
                                  sol_area = Fin (1 / 2) * sideAB * sideBC * Math_sin angleB,
                                  sol_incircle =
                                    \<lparr> radius = incircleRadius sideAB sideBC sideCA,
                                      center = Some incenter \<rparr>,
                                  sol_circumcircle =
                                    \<lparr> radius = circumradius, center = Some circumcenter \<rparr>,
                                  sol_ha = (sideCA * sideAB) / (Fin 2 * circumradius),
                                  sol_hb = (sideBC * sideAB) / (Fin 2 * circumradius),
                                  sol_hc = (sideBC * sideCA) / (Fin 2 * circumradius),
                                  sol_angleA = modeOutConv * angleA,
                                  sol_angleB = modeOutConv * angleB,
                                  sol_angleC = modeOutConv * angleC,
                                  sol_sideAB = sideAB, sol_sideBC = sideBC, sol_sideCA = sideCA,
                                  sol_centroid = centroid \<rparr>
                          in Inr (result\<lparr>pt_solutions := [solution]\<rparr>))))
                    | _ \<Rightarrow> Inl TypeError)))))))))"

section \<open>Notions used to state the properties\<close>



text \<open>The tests of the two validation loops, on the converted number.\<close>

definition good_side :: "num \<Rightarrow> bool" where
  "good_side n = (\<not> (Number_isNaN n \<or> n \<le> Fin 0))"

definition good_angle :: "num \<Rightarrow> bool" where
  "good_angle n = (\<not> (Number_isNaN n \<or> n \<le> Fin 0 \<or> n \<ge> angleSum))"

text \<open>What a slot of the array holds after the loops: nothing, or a number that passed.\<close>

definition side_slot :: "prim \<Rightarrow> bool" where
  "side_slot y = (y = Undefined \<or> (\<exists>n. y = Num n \<and> good_side n))"

definition angle_slot :: "prim \<Rightarrow> bool" where
  "angle_slot y = (y = Undefined \<or> (\<exists>n. y = Num n \<and> good_angle n))"

definition validated :: "prim list \<Rightarrow> bool" where
  "validated v = (\<exists>y0 y1 y2 y3 y4 y5. v = [y0, y1, y2, y3, y4, y5]
       \<and> side_slot y0 \<and> angle_slot y1 \<and> side_slot y2 \<and> angle_slot y3 \<and> side_slot y4
       \<and> angle_slot y5)"

text \<open>The first index and the count of the slots given, among the indices \<open>idxs\<close>.\<close>

definition first_given :: "prim list \<Rightarrow> int list \<Rightarrow> int" where
  "first_given v idxs = (case filter (\<lambda>i. aget v i \<noteq> Undefined) idxs of [] \<Rightarrow> - 1 | i # _ \<Rightarrow> i)"

definition count_given :: "prim list \<Rightarrow> int list \<Rightarrow> nat" where
  "count_given v idxs = length (filter (\<lambda>i. aget v i \<noteq> Undefined) idxs)"

text \<open>Conditions on the input of \<open>solve\<close>: a side that is given and passes the first
  loop, an angle that is absent or passes the second loop, a mode that is accepted, and the
  factor \<open>modeInConv\<close> of the input.\<close>

definition given_side :: "prim \<Rightarrow> bool" where
  "given_side p = (p \<noteq> Undefined \<and> p \<noteq> Str [] \<and> good_side (Number p))"

definition optional_angle :: "num \<Rightarrow> prim \<Rightarrow> bool" where
  "optional_angle modeInConv p =
     (p = Undefined \<or> p = Str [] \<or> good_angle (Number p * modeInConv))"

definition modeInConv_of :: "triangleToSolve \<Rightarrow> num" where
  "modeInConv_of t = (if t_mode t = Undefined \<or> t_mode t = Str ''deg'' then toRad else Fin 1)"

definition valid_mode :: "triangleToSolve \<Rightarrow> bool" where
  "valid_mode t = (t_mode t = Undefined \<or> t_mode t = Str ''deg'' \<or> t_mode t = Str ''rad'')"

text \<open>The two range tests of the validation step, which a candidate passes when no
  angle slot is \<open>\<le> 0\<close> or \<open>\<ge> pi\<close> and no side slot is \<open>\<le> 0\<close>.\<close>

definition angle_in_range :: "num \<Rightarrow> bool" where
  "angle_in_range x = (\<not> (x \<le> Fin 0 \<or> x \<ge> angleSum))"

definition side_in_range :: "num \<Rightarrow> bool" where
  "side_in_range x = (\<not> x \<le> Fin 0)"

definition in_range :: "prim list \<Rightarrow> bool" where
  "in_range valArray =
     (angle_in_range (num_at valArray 1) \<and> angle_in_range (num_at valArray 3)
      \<and> angle_in_range (num_at valArray 5) \<and> side_in_range (num_at valArray 0)
      \<and> side_in_range (num_at valArray 2) \<and> side_in_range (num_at valArray 4))"

text \<open>The envelope \<open>solve\<close> starts from, and the stage of \<open>solve\<close> before the case chain:
  the mode test and the two validation loops, with the array, the first indices and the
  counts they leave.\<close>

definition result_of :: "triangleToSolve \<Rightarrow> solveResult" where
  "result_of t =
     remove_undefined (initial_result t (if t_mode t = Undefined then Str ''deg'' else t_mode t))"

definition analyse :: "triangleToSolve \<Rightarrow> err + (prim list \<times> int \<times> nat \<times> int \<times> nat)" where
  "analyse t =
     (let mode = (if t_mode t = Undefined then Str ''deg'' else t_mode t);
          result = result_of t;
          valArray = [getprop result ''a'', getprop result ''gamma'', getprop result ''b'',
                      getprop result ''alpha'', getprop result ''c'', getprop result ''beta'']
      in if mode \<noteq> Str ''deg'' \<and> mode \<noteq> Str ''rad'' then Inl (UnknownMode mode)
         else case validate_sides [0, 2, 4] valArray (- 1) 0 of
                Inl e \<Rightarrow> Inl e
              | Inr (v1, firstSide, sideCount) \<Rightarrow>
                  (case validate_angles [1, 3, 5] (if mode = Str ''deg'' then toRad else Fin 1)
                          v1 (- 1) 0 of
                     Inl e \<Rightarrow> Inl e
                   | Inr (v2, firstAngle, angleCount) \<Rightarrow>
                       Inr (v2, firstSide, sideCount, firstAngle, angleCount)))"

text \<open>An input reaches the SSA branch, or the ASS branch, of the case chain with the
  array \<open>v\<close> and the first angle index \<open>fA\<close>.\<close>

definition classified_SSA :: "triangleToSolve \<Rightarrow> prim list \<Rightarrow> int \<Rightarrow> bool" where
  "classified_SSA t v fA =
     (\<exists>fS sC aC. analyse t = Inr (v, fS, sC, fA, aC) \<and> 3 \<le> aC + sC \<and> sC \<noteq> 0 \<and> sC \<noteq> 3
        \<and> \<not> is_ASA v fS \<and> \<not> is_SAS v fA \<and> \<not> is_SAA v fS \<and> \<not> is_AAS v fS \<and> is_SSA v fA)"

definition classified_ASS :: "triangleToSolve \<Rightarrow> prim list \<Rightarrow> int \<Rightarrow> bool" where
  "classified_ASS t v fA =
     (\<exists>fS sC aC. analyse t = Inr (v, fS, sC, fA, aC) \<and> 3 \<le> aC + sC \<and> sC \<noteq> 0 \<and> sC \<noteq> 3
        \<and> \<not> is_ASA v fS \<and> \<not> is_SAS v fA \<and> \<not> is_SAA v fS \<and> \<not> is_AAS v fS \<and> \<not> is_SSA v fA
        \<and> is_ASS v fA)"













section \<open>Evaluation and simplification rules\<close>

lemmas solve_unfold = solve_def initial_result_def remove_undefined_def getprop_def aget_def
  aset_def slot_def rem_js_def num_at_def order_def solve_cases_def solve_SSS_def solve_ASA_def
  solve_SAS_def solve_SAA_def solve_AAS_def solve_SSA_def solve_ASS_def ssa_candidate_def
  ass_candidate_def is_ASA_def is_SAS_def is_SAA_def is_AAS_def is_SSA_def is_ASS_def
  addSolutionToResult_def make_solution_def equalFloat_def incircleRadius_def toRad_def
  toDeg_def angleSum_def Math_PI_def modeOutConv_of_def calculatedValue_def Let_def

lemma pi_not_le_zero [simp]: "\<not> pi \<le> 0"
  using pi_gt_zero by linarith


section \<open>Exceptions across the interface\<close>

text \<open>
  Claim C8.  \<open>solvePoints\<close> with \<open>null\<close> as its first point does not return an envelope:
  \<open>typeof null\<close> is \<open>"object"\<close>, so \<open>checkCoordinate\<close> goes on to \<open>Object.hasOwn(null, "x")\<close>,
  which throws a TypeError, whatever the other arguments are.
\<close>

theorem solvePoints_null_throws: "solvePoints (Prim Null) B C mode = Inl TypeError"
  by (simp add: solvePoints_def checkCoordinate_def bind_exn_def)


section \<open>Candidates with NaN\<close>

text \<open>
  Claim C5.  The input \<open>{a: Infinity, b: 1, gamma: 60}\<close> (degrees) is accepted and takes the
  SAS branch; the third side is the square root of \<open>Infinity - Infinity\<close>.  One solution is
  emitted, without an error, whose side \<open>c\<close> and angles \<open>alpha\<close> and \<open>beta\<close> are NaN: its
  angles do not sum to 180 and \<open>c\<close> is not positive.
\<close>

theorem solve_infinite_side_emits_NaN:
  "error (solve \<lparr>t_a = Num PInf, t_b = Num (Fin 1), t_c = Undefined, t_alpha = Undefined,
                   t_beta = Undefined, t_gamma = Num (Fin 60), t_mode = Undefined\<rparr>) = None
   \<and> map (\<lambda>s. (sol_a s, sol_b s, sol_c s, sol_alpha s, sol_beta s, sol_gamma s))
        (solutions (solve \<lparr>t_a = Num PInf, t_b = Num (Fin 1), t_c = Undefined,
                            t_alpha = Undefined, t_beta = Undefined, t_gamma = Num (Fin 60),
                            t_mode = Undefined\<rparr>))
     = [(PInf, Fin 1, NaN, NaN, NaN, Fin 60)]"
  by (simp add: solve_unfold cos_60 sin_60)

text \<open>
  Claim C6.  The validation step appends the candidate of that input, which holds NaN in
  two angle slots and one side slot, and sets no error: NaN fails each range comparison.
\<close>

theorem addSolutionToResult_appends_NaN:
  "solutions (addSolutionToResult
               [Num PInf, Num (Fin (pi / 3)), Num (Fin 1), Num NaN, Num NaN, Num NaN] result 3)
     = solutions result
       @ [make_solution [Num PInf, Num (Fin (pi / 3)), Num (Fin 1), Num NaN, Num NaN, Num NaN]
            (modeOutConv_of result)]
   \<and> error (addSolutionToResult
               [Num PInf, Num (Fin (pi / 3)), Num (Fin 1), Num NaN, Num NaN, Num NaN] result 3)
     = error result"
  by (simp add: addSolutionToResult_def aget_def angleSum_def Math_PI_def)


section \<open>Conflict detection\<close>


section \<open>\<open>solvePoints\<close> on valid points\<close>



lemma acos_truthy_finite:
  assumes "truthy (Num (Math_acos ((pow2 b + pow2 c - pow2 a) / (Fin 2 * b * c))))"
  shows "\<exists>x y z. a = Fin x \<and> b = Fin y \<and> c = Fin z"
  using assms by (cases a; cases b; cases c) (simp_all split: if_splits)

lemma hypot_finite:
  "Math_hypot u v = Fin z \<Longrightarrow> \<exists>x y. u = Fin x \<and> v = Fin y"
  by (cases u; cases v) simp_all

lemma minus_finite:
  "(u::num) - v = Fin z \<Longrightarrow> \<exists>x y. u = Fin x \<and> v = Fin y"
  by (cases u; cases v) simp_all









section \<open>The stages of \<open>solve\<close> and the coverage of the case chain\<close>

lemma good_side_cases: "good_side n = (n = PInf \<or> (\<exists>x. n = Fin x \<and> 0 < x))"
  by (cases n) (auto simp: good_side_def)

lemma good_angle_cases: "good_angle n = (\<exists>x. n = Fin x \<and> 0 < x \<and> x < pi)"
  by (cases n) (auto simp: good_angle_def angleSum_def Math_PI_def)

lemma validate_sides_result:
  assumes "validate_sides [0, 2, 4] [x0, x1, x2, x3, x4, x5] (- 1) 0 = Inr (v, fS, sC)"
  shows "\<exists>y0 y2 y4. v = [y0, x1, y2, x3, y4, x5] \<and> side_slot y0 \<and> side_slot y2 \<and> side_slot y4
           \<and> (y0 = Undefined \<longleftrightarrow> x0 = Undefined) \<and> (y2 = Undefined \<longleftrightarrow> x2 = Undefined)
           \<and> (y4 = Undefined \<longleftrightarrow> x4 = Undefined)
           \<and> (x0 \<noteq> Undefined \<longrightarrow> y0 = Num (Number x0))
           \<and> (x2 \<noteq> Undefined \<longrightarrow> y2 = Num (Number x2))
           \<and> (x4 \<noteq> Undefined \<longrightarrow> y4 = Num (Number x4))
           \<and> fS = first_given v [0, 2, 4] \<and> sC = count_given v [0, 2, 4]"
  using assms
  by (auto simp: aget_def aset_def Let_def side_slot_def good_side_def first_given_def
      count_given_def split: if_splits)


lemma validate_angles_result:
  assumes "validate_angles [1, 3, 5] m [y0, x1, y2, x3, y4, x5] (- 1) 0 = Inr (v, fA, aC)"
  shows "\<exists>y1 y3 y5. v = [y0, y1, y2, y3, y4, y5] \<and> angle_slot y1 \<and> angle_slot y3 \<and> angle_slot y5
           \<and> (y1 = Undefined \<longleftrightarrow> x1 = Undefined) \<and> (y3 = Undefined \<longleftrightarrow> x3 = Undefined)
           \<and> (y5 = Undefined \<longleftrightarrow> x5 = Undefined)
           \<and> (x1 \<noteq> Undefined \<longrightarrow> y1 = Num (Number x1 * m))
           \<and> (x3 \<noteq> Undefined \<longrightarrow> y3 = Num (Number x3 * m))
           \<and> (x5 \<noteq> Undefined \<longrightarrow> y5 = Num (Number x5 * m))
           \<and> fA = first_given v [1, 3, 5] \<and> aC = count_given v [1, 3, 5]"
  using assms
  by (auto simp: aget_def aset_def Let_def angle_slot_def good_angle_def first_given_def
      count_given_def split: if_splits)

lemma validation_result:
  assumes "validate_sides [0, 2, 4] [x0, x1, x2, x3, x4, x5] (- 1) 0 = Inr (v1, fS, sC)"
    and "validate_angles [1, 3, 5] m v1 (- 1) 0 = Inr (v, fA, aC)"
  shows "validated v \<and> fS = first_given v [0, 2, 4] \<and> sC = count_given v [0, 2, 4]
           \<and> fA = first_given v [1, 3, 5] \<and> aC = count_given v [1, 3, 5]"
proof -
  from validate_sides_result [OF assms(1)] obtain y0 y2 y4 where
    s: "v1 = [y0, x1, y2, x3, y4, x5]" "side_slot y0" "side_slot y2" "side_slot y4"
       "fS = first_given v1 [0, 2, 4]" "sC = count_given v1 [0, 2, 4]"
    by blast
  from validate_angles_result [OF assms(2) [unfolded s(1)]] obtain y1 y3 y5 where
    a: "v = [y0, y1, y2, y3, y4, y5]" "angle_slot y1" "angle_slot y3" "angle_slot y5"
       "fA = first_given v [1, 3, 5]" "aC = count_given v [1, 3, 5]"
    by blast
  have "first_given v1 [0, 2, 4] = first_given v [0, 2, 4]"
    "count_given v1 [0, 2, 4] = count_given v [0, 2, 4]"
    by (simp_all add: s(1) a(1) first_given_def count_given_def aget_def)
  with s a show ?thesis by (auto simp: validated_def)
qed

lemma truthy_side_slot: "side_slot y \<Longrightarrow> truthy y = (y \<noteq> Undefined)"
  by (auto simp: side_slot_def good_side_cases)

lemma truthy_angle_slot: "angle_slot y \<Longrightarrow> truthy y = (y \<noteq> Undefined)"
  by (auto simp: angle_slot_def good_angle_cases)

lemmas branch_tests = is_ASA_def is_SAS_def is_SAA_def is_AAS_def is_SSA_def is_ASS_def
  slot_def rem_js_def aget_def first_given_def count_given_def

lemma some_branch_matches:
  assumes "validated v"
    and "count_given v [0, 2, 4] + count_given v [1, 3, 5] \<ge> 3"
    and "count_given v [0, 2, 4] \<noteq> 0" and "count_given v [0, 2, 4] \<noteq> 3"
  shows "is_ASA v (first_given v [0, 2, 4]) \<or> is_SAS v (first_given v [1, 3, 5])
       \<or> is_SAA v (first_given v [0, 2, 4]) \<or> is_AAS v (first_given v [0, 2, 4])
       \<or> is_SSA v (first_given v [1, 3, 5]) \<or> is_ASS v (first_given v [1, 3, 5])"
proof -
  from assms(1) obtain y0 y1 y2 y3 y4 y5 where v: "v = [y0, y1, y2, y3, y4, y5]"
    and s: "side_slot y0" "side_slot y2" "side_slot y4"
    and a: "angle_slot y1" "angle_slot y3" "angle_slot y5"
    by (auto simp: validated_def)
  note t = s [THEN truthy_side_slot] a [THEN truthy_angle_slot]
  from assms(2-4) show ?thesis
    unfolding v
    by (cases "y0 = Undefined"; cases "y1 = Undefined"; cases "y2 = Undefined";
        cases "y3 = Undefined"; cases "y4 = Undefined"; cases "y5 = Undefined")
       (simp_all add: branch_tests t)
qed

lemma redundant_input_branch:
  assumes "validated v"
    and "count_given v [0, 2, 4] + count_given v [1, 3, 5] > 3"
    and "count_given v [0, 2, 4] \<noteq> 0" and "count_given v [0, 2, 4] \<noteq> 3"
  shows "is_ASA v (first_given v [0, 2, 4]) \<or> is_SAS v (first_given v [1, 3, 5])
       \<or> is_SAA v (first_given v [0, 2, 4]) \<or> is_AAS v (first_given v [0, 2, 4])"
proof -
  from assms(1) obtain y0 y1 y2 y3 y4 y5 where v: "v = [y0, y1, y2, y3, y4, y5]"
    and s: "side_slot y0" "side_slot y2" "side_slot y4"
    and a: "angle_slot y1" "angle_slot y3" "angle_slot y5"
    by (auto simp: validated_def)
  note t = s [THEN truthy_side_slot] a [THEN truthy_angle_slot]
  from assms(2-4) show ?thesis
    unfolding v
    by (cases "y0 = Undefined"; cases "y1 = Undefined"; cases "y2 = Undefined";
        cases "y3 = Undefined"; cases "y4 = Undefined"; cases "y5 = Undefined")
       (simp_all add: branch_tests t)
qed


lemma addSolutionToResult_outcome:
  "solutions (addSolutionToResult v r pc) \<noteq> [] \<or> error (addSolutionToResult v r pc) \<noteq> None"
  by (simp add: addSolutionToResult_def Let_def split: option.splits)

lemma solve_cases_outcome:
  assumes "validated v"
    and "fS = first_given v [0, 2, 4]" and "sC = count_given v [0, 2, 4]"
    and "fA = first_given v [1, 3, 5]" and "aC = count_given v [1, 3, 5]"
  shows "solutions (solve_cases a b c v fS sC fA aC r) \<noteq> []
         \<or> error (solve_cases a b c v fS sC fA aC r) \<noteq> None"
proof -
  consider "aC + sC < 3" | "sC = 0" | "aC + sC \<ge> 3" "sC = 3"
    | "aC + sC \<ge> 3" "sC \<noteq> 0" "sC \<noteq> 3"
    by linarith
  then show ?thesis
  proof cases
    case 1
    then show ?thesis by (simp add: solve_cases_def)
  next
    case 2
    then show ?thesis by (simp add: solve_cases_def)
  next
    case 3
    then show ?thesis
      using addSolutionToResult_outcome by (simp add: solve_cases_def solve_SSS_def Let_def)
  next
    case 4
    with some_branch_matches [OF assms(1)] assms(2-5)
    have "is_ASA v fS \<or> is_SAS v fA \<or> is_SAA v fS \<or> is_AAS v fS \<or> is_SSA v fA \<or> is_ASS v fA"
      by simp
    with 4 show ?thesis
      using addSolutionToResult_outcome
      by (auto simp add: solve_cases_def solve_ASA_def solve_SAS_def solve_SAA_def solve_AAS_def
          solve_SSA_def solve_ASS_def Let_def)
  qed
qed

lemma solve_stages:
  fixes t :: triangleToSolve
  defines "mode \<equiv> (if t_mode t = Undefined then Str ''deg'' else t_mode t)"
  defines "result \<equiv> remove_undefined (initial_result t mode)"
  defines "valArray \<equiv> [getprop result ''a'', getprop result ''gamma'',
    getprop result ''b'', getprop result ''alpha'', getprop result ''c'', getprop result ''beta'']"
  defines "conv \<equiv> (if mode = Str ''deg'' then toRad else Fin 1)"
  shows "(mode \<noteq> Str ''deg'' \<and> mode \<noteq> Str ''rad''
            \<and> solve t = result\<lparr>error := Some (UnknownMode mode)\<rparr>)
       \<or> ((mode = Str ''deg'' \<or> mode = Str ''rad'') \<and>
           ((\<exists>e. validate_sides [0, 2, 4] valArray (- 1) 0 = Inl e
                \<and> solve t = result\<lparr>error := Some e\<rparr>)
          \<or> (\<exists>v1 fS sC. validate_sides [0, 2, 4] valArray (- 1) 0 = Inr (v1, fS, sC)
                \<and> ((\<exists>e. validate_angles [1, 3, 5] conv v1 (- 1) 0 = Inl e
                         \<and> solve t = result\<lparr>error := Some e\<rparr>)
                   \<or> (\<exists>v fA aC. validate_angles [1, 3, 5] conv v1 (- 1) 0 = Inr (v, fA, aC)
                         \<and> solve t = solve_cases (t_a t) (t_b t) (t_c t) v fS sC fA aC result)))))"
proof -
  have eq: "solve t =
     (if mode \<noteq> Str ''deg'' \<and> mode \<noteq> Str ''rad''
      then result\<lparr>error := Some (UnknownMode mode)\<rparr>
      else case validate_sides [0, 2, 4] valArray (- 1) 0 of
             Inl e \<Rightarrow> result\<lparr>error := Some e\<rparr>
           | Inr (v1, firstSide, sideCount) \<Rightarrow>
               (case validate_angles [1, 3, 5] conv v1 (- 1) 0 of
                  Inl e \<Rightarrow> result\<lparr>error := Some e\<rparr>
                | Inr (v2, firstAngle, angleCount) \<Rightarrow>
                    solve_cases (t_a t) (t_b t) (t_c t) v2 firstSide sideCount
                      firstAngle angleCount result))"
    unfolding solve_def Let_def mode_def result_def valArray_def conv_def by (rule refl)
  show ?thesis
  proof (cases "mode \<noteq> Str ''deg'' \<and> mode \<noteq> Str ''rad''")
    case True
    then show ?thesis unfolding eq by simp
  next
    case False
    then have m: "mode = Str ''deg'' \<or> mode = Str ''rad''" by blast
    show ?thesis
    proof (cases "validate_sides [0, 2, 4] valArray (- 1) 0")
      case (Inl e)
      then show ?thesis unfolding eq using False m by simp
    next
      case (Inr st)
      obtain v1 fS sC where st: "st = (v1, fS, sC)" by (cases st) auto
      show ?thesis
      proof (cases "validate_angles [1, 3, 5] conv v1 (- 1) 0")
        case (Inl e)
        then show ?thesis unfolding eq using False m Inr st by simp
      next
        case a: (Inr st2)
        obtain v fA aC where st2: "st2 = (v, fA, aC)" by (cases st2) auto
        show ?thesis unfolding eq using False m Inr st a st2 by simp
      qed
    qed
  qed
qed

lemma initial_result_empty:
  "solutions (remove_undefined (initial_result t mode)) = []
   \<and> error (remove_undefined (initial_result t mode)) = None"
  by (simp add: remove_undefined_def initial_result_def)

text \<open>
  Claim C10.  \<open>solve\<close> never returns an envelope with no solution and no error.  When
  validation passes with at least 3 parameters and one or two sides, one of the six branch
  tests after SSS holds (\<open>some_branch_matches\<close>); every branch sets an error or calls the
  validation step, which adds a solution or sets an error.
\<close>

theorem solve_never_silent: "solutions (solve t) = [] \<Longrightarrow> error (solve t) \<noteq> None"
proof -
  assume e: "solutions (solve t) = []"
  define mode where "mode = (if t_mode t = Undefined then Str ''deg'' else t_mode t)"
  define result where "result = remove_undefined (initial_result t mode)"
  define valArray where "valArray = [getprop result ''a'', getprop result ''gamma'',
    getprop result ''b'', getprop result ''alpha'', getprop result ''c'', getprop result ''beta'']"
  define conv where "conv = (if mode = Str ''deg'' then toRad else Fin 1)"
  note st = solve_stages [of t, folded mode_def, folded result_def, folded valArray_def,
      folded conv_def]
  from st consider "\<exists>e. solve t = result\<lparr>error := Some e\<rparr>"
    | v1 fS sC v fA aC where "validate_sides [0, 2, 4] valArray (- 1) 0 = Inr (v1, fS, sC)"
        "validate_angles [1, 3, 5] conv v1 (- 1) 0 = Inr (v, fA, aC)"
        "solve t = solve_cases (t_a t) (t_b t) (t_c t) v fS sC fA aC result"
    by blast
  then show ?thesis
  proof cases
    case 1
    then show ?thesis by auto
  next
    case 2
    from validation_result [OF 2(1) [unfolded valArray_def] 2(2)]
    have "validated v \<and> fS = first_given v [0, 2, 4] \<and> sC = count_given v [0, 2, 4]
           \<and> fA = first_given v [1, 3, 5] \<and> aC = count_given v [1, 3, 5]" .
    with solve_cases_outcome [of v fS sC fA aC "t_a t" "t_b t" "t_c t" result] e 2(3)
    show ?thesis by simp
  qed
qed

theorem solve_never_silent_witness:
  "solutions (solve \<lparr>t_a = Num (Fin 1), t_b = Undefined, t_c = Undefined, t_alpha = Undefined,
                       t_beta = Undefined, t_gamma = Undefined, t_mode = Undefined\<rparr>) = []
   \<and> error (solve \<lparr>t_a = Num (Fin 1), t_b = Undefined, t_c = Undefined, t_alpha = Undefined,
                     t_beta = Undefined, t_gamma = Undefined, t_mode = Undefined\<rparr>) \<noteq> None"
proof -
  have "solutions (solve \<lparr>t_a = Num (Fin 1), t_b = Undefined, t_c = Undefined,
                            t_alpha = Undefined, t_beta = Undefined, t_gamma = Undefined,
                            t_mode = Undefined\<rparr>) = []"
    by (simp add: solve_unfold)
  with solve_never_silent [OF this] show ?thesis by simp
qed

section \<open>SSS with impossible side lengths\<close>

lemma sss_ratio_low:
  fixes x y z :: real
  assumes "0 < x" "0 < y" "0 < z" "y + z \<le> x"
  shows "(y * y + z * z - x * x) / (2 * y * z) \<le> - 1"
    and "(y * y + z * z - x * x) / (2 * y * z) = - 1 \<Longrightarrow> (x * x + z * z - y * y) / (2 * x * z) = 1"
proof -
  have p: "0 < 2 * y * z" "0 < 2 * x * z" using assms by simp_all
  have "(y + z) * (y + z) \<le> x * x" using assms by (intro mult_mono) simp_all
  then have "y * y + z * z - x * x \<le> - 1 * (2 * y * z)" by (simp add: algebra_simps)
  then show "(y * y + z * z - x * x) / (2 * y * z) \<le> - 1"
    using p(1) by (simp add: divide_le_eq)
  assume "(y * y + z * z - x * x) / (2 * y * z) = - 1"
  then have "y * y + z * z - x * x = - (2 * y * z)" using assms by (simp add: divide_eq_eq)
  then have "(y + z)\<^sup>2 = x\<^sup>2" by (simp add: algebra_simps power2_eq_square)
  then have "x = y + z" using assms by (simp add: power2_eq_iff_nonneg)
  then have "x * x + z * z - y * y = 2 * x * z" by (simp add: algebra_simps)
  then show "(x * x + z * z - y * y) / (2 * x * z) = 1"
    using assms by simp
qed

lemma sss_ratio_high:
  fixes x y z :: real
  assumes "0 < x" "0 < y" "0 < z" "x + y \<le> z"
  shows "1 \<le> (y * y + z * z - x * x) / (2 * y * z)"
proof -
  have p: "0 < 2 * y * z" using assms by simp
  have "x * x \<le> (z - y) * (z - y)" using assms by (intro mult_mono) simp_all
  then have "1 * (2 * y * z) \<le> y * y + z * z - x * x" by (simp add: algebra_simps)
  then show ?thesis using p by (simp add: le_divide_eq)
qed


lemma sss_violation_falsy:
  assumes "good_side na" "good_side nb" "good_side nc"
    and "nb + nc \<le> na \<or> na + nc \<le> nb \<or> na + nb \<le> nc"
  shows "\<not> truthy (Num (Math_acos ((pow2 nb + pow2 nc - pow2 na) / (Fin 2 * nb * nc))))
       \<or> \<not> truthy (Num (Math_acos ((pow2 na + pow2 nc - pow2 nb) / (Fin 2 * na * nc))))"
proof -
  consider "na = PInf \<or> nb = PInf \<or> nc = PInf"
    | x y z where "na = Fin x" "nb = Fin y" "nc = Fin z" "0 < x" "0 < y" "0 < z"
    using assms(1-3) by (auto simp: good_side_cases)
  then show ?thesis
  proof cases
    case 1
    then show ?thesis
      using assms(1-3) by (auto simp: good_side_cases)
  next
    case 2
    from assms(4) 2 consider "y + z \<le> x" | "x + z \<le> y" | "x + y \<le> z" by auto
    then show ?thesis
    proof cases
      case 1
      from sss_ratio_low [OF 2(4) 2(5) 2(6) 1] show ?thesis
        using 2 by (cases "(y * y + z * z - x * x) / (2 * y * z) = - 1") auto
    next
      case 2
      from sss_ratio_low [OF \<open>0 < y\<close> \<open>0 < x\<close> \<open>0 < z\<close> 2] show ?thesis
        using \<open>na = Fin x\<close> \<open>nb = Fin y\<close> \<open>nc = Fin z\<close> \<open>0 < x\<close> \<open>0 < y\<close> \<open>0 < z\<close>
        by (cases "(x * x + z * z - y * y) / (2 * x * z) = - 1") auto
    next
      case 3
      from sss_ratio_high [OF 2(4) 2(5) 2(6) 3] show ?thesis
        using 2 by (cases "(y * y + z * z - x * x) / (2 * y * z) = 1") auto
    qed
  qed
qed

lemma getprop_initial:
  "getprop (remove_undefined (initial_result t mode)) ''a''
     = (if t_a t = Undefined \<or> t_a t = Str [] then Undefined else t_a t)"
  "getprop (remove_undefined (initial_result t mode)) ''b''
     = (if t_b t = Undefined \<or> t_b t = Str [] then Undefined else t_b t)"
  "getprop (remove_undefined (initial_result t mode)) ''c''
     = (if t_c t = Undefined \<or> t_c t = Str [] then Undefined else t_c t)"
  "getprop (remove_undefined (initial_result t mode)) ''alpha''
     = (if t_alpha t = Undefined \<or> t_alpha t = Str [] then Undefined else t_alpha t)"
  "getprop (remove_undefined (initial_result t mode)) ''beta''
     = (if t_beta t = Undefined \<or> t_beta t = Str [] then Undefined else t_beta t)"
  "getprop (remove_undefined (initial_result t mode)) ''gamma''
     = (if t_gamma t = Undefined \<or> t_gamma t = Str [] then Undefined else t_gamma t)"
  "getprop (remove_undefined (initial_result t mode)) ''mode''
     = (if mode = Undefined \<or> mode = Str [] then Undefined else mode)"
  by (simp_all add: getprop_def remove_undefined_def initial_result_def)

lemma validate_angles_total:
  assumes "x1 = Undefined \<or> good_angle (Number x1 * m)"
    and "x3 = Undefined \<or> good_angle (Number x3 * m)"
    and "x5 = Undefined \<or> good_angle (Number x5 * m)"
  shows "\<exists>y1 y3 y5 fA aC. validate_angles [1, 3, 5] m [y0, x1, y2, x3, y4, x5] (- 1) 0
           = Inr ([y0, y1, y2, y3, y4, y5], fA, aC)"
  using assms by (auto simp: aget_def aset_def good_angle_def Let_def)

lemma validate_sides_three:
  assumes "x0 \<noteq> Undefined" "good_side (Number x0)" "x2 \<noteq> Undefined" "good_side (Number x2)"
    "x4 \<noteq> Undefined" "good_side (Number x4)"
  shows "validate_sides [0, 2, 4] [x0, x1, x2, x3, x4, x5] (- 1) 0
           = Inr ([Num (Number x0), x1, Num (Number x2), x3, Num (Number x4), x5], 0, 3)"
  using assms by (simp add: aget_def aset_def good_side_def Let_def)


lemma solve_SSS_falsy:
  assumes "\<not> truthy (Num (Math_acos ((pow2 (Number b) + pow2 (Number c) - pow2 (Number a))
                                      / (Fin 2 * Number b * Number c))))
         \<or> \<not> truthy (Num (Math_acos ((pow2 (Number a) + pow2 (Number c) - pow2 (Number b))
                                      / (Fin 2 * Number a * Number c))))"
  shows "solve_SSS a b c [y0, y1, y2, y3, y4, y5] r pc = r\<lparr>error := Some (ImpossibleSides a b c)\<rparr>"
  using assms by (auto simp add: solve_SSS_def aset_def aget_def num_at_def Let_def)

text \<open>
  With exact arithmetic the test of the SSS branch catches every violation of the triangle
  inequality: when the three sides are given and legal and one length is at least the sum
  of the other two, one of the two quotients of the law of cosines is at least 1 or at
  most -1, its \<open>acos\<close> is 0 or NaN, and \<open>solve\<close> returns the "Impossible combination of
  side lengths" error.
\<close>

lemma exact_SSS_impossible_sides:
  assumes mode: "valid_mode t"
    and sides: "given_side (t_a t)" "given_side (t_b t)" "given_side (t_c t)"
    and angles: "optional_angle (modeInConv_of t) (t_alpha t)"
      "optional_angle (modeInConv_of t) (t_beta t)" "optional_angle (modeInConv_of t) (t_gamma t)"
    and bad: "Number (t_b t) + Number (t_c t) \<le> Number (t_a t)
            \<or> Number (t_a t) + Number (t_c t) \<le> Number (t_b t)
            \<or> Number (t_a t) + Number (t_b t) \<le> Number (t_c t)"
  shows "solutions (solve t) = []
       \<and> error (solve t) = Some (ImpossibleSides (t_a t) (t_b t) (t_c t))"
proof -
  define mode where "mode = (if t_mode t = Undefined then Str ''deg'' else t_mode t)"
  define result where "result = remove_undefined (initial_result t mode)"
  define valArray where "valArray = [getprop result ''a'', getprop result ''gamma'',
    getprop result ''b'', getprop result ''alpha'', getprop result ''c'', getprop result ''beta'']"
  define conv where "conv = (if mode = Str ''deg'' then toRad else Fin 1)"
  define g where "g = (if t_gamma t = Undefined \<or> t_gamma t = Str [] then Undefined else t_gamma t)"
  define al where "al = (if t_alpha t = Undefined \<or> t_alpha t = Str [] then Undefined else t_alpha t)"
  define be where "be = (if t_beta t = Undefined \<or> t_beta t = Str [] then Undefined else t_beta t)"
  have m: "mode = Str ''deg'' \<or> mode = Str ''rad''"
    using mode by (auto simp: mode_def valid_mode_def)
  have conv: "conv = modeInConv_of t"
    using mode by (auto simp: conv_def mode_def modeInConv_of_def valid_mode_def)
  have va: "valArray = [t_a t, g, t_b t, al, t_c t, be]"
    using sides
    by (simp add: valArray_def result_def getprop_initial given_side_def g_def al_def be_def)
  have vs: "validate_sides [0, 2, 4] valArray (- 1) 0
              = Inr ([Num (Number (t_a t)), g, Num (Number (t_b t)), al, Num (Number (t_c t)), be], 0, 3)"
    unfolding va using sides by (intro validate_sides_three) (simp_all add: given_side_def)
  have oa: "g = Undefined \<or> good_angle (Number g * conv)"
    "al = Undefined \<or> good_angle (Number al * conv)"
    "be = Undefined \<or> good_angle (Number be * conv)"
    using angles by (auto simp: optional_angle_def g_def al_def be_def conv)
  from validate_angles_total [OF oa(1) oa(2) oa(3)] obtain y1 y3 y5 fA aC where
    vang: "validate_angles [1, 3, 5] conv
             [Num (Number (t_a t)), g, Num (Number (t_b t)), al, Num (Number (t_c t)), be] (- 1) 0
           = Inr ([Num (Number (t_a t)), y1, Num (Number (t_b t)), y3, Num (Number (t_c t)), y5],
                  fA, aC)"
    by blast
  note st = solve_stages [of t, folded mode_def, folded result_def, folded valArray_def,
      folded conv_def]
  from st m vs vang have eq: "solve t = solve_cases (t_a t) (t_b t) (t_c t)
      [Num (Number (t_a t)), y1, Num (Number (t_b t)), y3, Num (Number (t_c t)), y5]
      0 3 fA aC result"
    by auto
  have f: "\<not> truthy (Num (Math_acos ((pow2 (Number (t_b t)) + pow2 (Number (t_c t))
                 - pow2 (Number (t_a t))) / (Fin 2 * Number (t_b t) * Number (t_c t)))))
         \<or> \<not> truthy (Num (Math_acos ((pow2 (Number (t_a t)) + pow2 (Number (t_c t))
                 - pow2 (Number (t_b t))) / (Fin 2 * Number (t_a t) * Number (t_c t)))))"
    using sides bad by (intro sss_violation_falsy) (simp_all add: given_side_def)
  have "solve t = result\<lparr>error := Some (ImpossibleSides (t_a t) (t_b t) (t_c t))\<rparr>"
    unfolding eq by (simp add: solve_cases_def solve_SSS_falsy [OF f])
  then show ?thesis
    using initial_result_empty [of t mode] by (simp add: result_def)
qed

text \<open>
  Claim C7.  The SSS branch reports impossible side lengths only when an angle it has
  computed is 0 or NaN, and the validation step accepts every candidate whose angles lie
  strictly between 0 and \<open>pi\<close> and whose sides are positive.  For \<open>a = 5412\<close>,
  \<open>b = 2968623106\<close>, \<open>c = 2968628518\<close>, where \<open>a + b = c\<close>, the two quotients of the law
  of cosines are exactly 1; computed in doubles they come out just below 1 and \<open>acos\<close>
  returns small positive angles \<open>A\<close> and \<open>B\<close> (about \<open>1.5e-8\<close> and \<open>6.5e-6\<close>).  Whatever
  these are, as long as they are positive and sum to less than \<open>pi\<close>, the candidate passes
  the test of the SSS branch and the validation step appends it as a solution.
\<close>

theorem sss_rounded_angles_accepted:
  "0 < A \<and> 0 < B \<and> A + B < pi \<longrightarrow>
     \<not> list_ex (\<lambda>x. \<not> truthy x)
          [Num (Fin 5412), Num (Fin (pi - A - B)), Num (Fin 2968623106), Num (Fin A),
           Num (Fin 2968628518), Num (Fin B)]
     \<and> addSolutionToResult
          [Num (Fin 5412), Num (Fin (pi - A - B)), Num (Fin 2968623106), Num (Fin A),
           Num (Fin 2968628518), Num (Fin B)] result 3
        = result\<lparr>solutions := solutions result
             @ [make_solution
                  [Num (Fin 5412), Num (Fin (pi - A - B)), Num (Fin 2968623106), Num (Fin A),
                   Num (Fin 2968628518), Num (Fin B)] (modeOutConv_of result)]\<rparr>"
  by (simp add: addSolutionToResult_def num_at_def aget_def angleSum_def Math_PI_def Let_def)

theorem sss_rounded_angles_accepted_witness:
  "(0::real) < 1 / 2 ^ 26 \<and> (0::real) < 7725694178475365 / 2 ^ 70
   \<and> error (addSolutionToResult
          [Num (Fin 5412), Num (Fin (pi - 1 / 2 ^ 26 - 7725694178475365 / 2 ^ 70)),
           Num (Fin 2968623106), Num (Fin (1 / 2 ^ 26)), Num (Fin 2968628518),
           Num (Fin (7725694178475365 / 2 ^ 70))]
          \<lparr>props = Map.empty, solutions = [], error = None\<rparr> 3) = None
   \<and> length (solutions (addSolutionToResult
          [Num (Fin 5412), Num (Fin (pi - 1 / 2 ^ 26 - 7725694178475365 / 2 ^ 70)),
           Num (Fin 2968623106), Num (Fin (1 / 2 ^ 26)), Num (Fin 2968628518),
           Num (Fin (7725694178475365 / 2 ^ 70))]
          \<lparr>props = Map.empty, solutions = [], error = None\<rparr> 3)) = 1"
proof -
  have s: "(1::real) / 2 ^ 26 + 7725694178475365 / 2 ^ 70 < 2" by simp
  have "(1::real) / 2 ^ 26 + 7725694178475365 / 2 ^ 70 < pi"
    using s pi_ge_two by linarith
  with sss_rounded_angles_accepted
      [of "1 / 2 ^ 26" "7725694178475365 / 2 ^ 70" "\<lparr>props = Map.empty, solutions = [], error = None\<rparr>"]
  show ?thesis by simp
qed

section \<open>The ambiguous case\<close>

lemma addSolutionToResult_three:
  assumes "pc \<le> 3"
  shows "addSolutionToResult v r pc =
           (if in_range v then r\<lparr>solutions := solutions r @ [make_solution v (modeOutConv_of r)]\<rparr>
            else r\<lparr>error := Some NoSolution\<rparr>)"
  using assms
  by (auto simp add: addSolutionToResult_def in_range_def angle_in_range_def side_in_range_def
      num_at_def Let_def)

lemma length_six:
  assumes "length (v :: prim list) = 6"
  obtains y0 y1 y2 y3 y4 y5 where "v = [y0, y1, y2, y3, y4, y5]"
proof -
  from assms obtain y0 v1 where "v = y0 # v1" "length v1 = 5" by (cases v) auto
  moreover then obtain y1 v2 where "v1 = y1 # v2" "length v2 = 4" by (cases v1) auto
  moreover then obtain y2 v3 where "v2 = y2 # v3" "length v3 = 3" by (cases v2) auto
  moreover then obtain y3 v4 where "v3 = y3 # v4" "length v4 = 2" by (cases v3) auto
  moreover then obtain y4 v5 where "v4 = y4 # v5" "length v5 = 1" by (cases v4) auto
  moreover then obtain y5 where "v5 = [y5]" by (cases v5) auto
  ultimately show ?thesis using that by blast
qed

lemma ssa_candidate_in_range:
  assumes "length v = 6" and "fA = 1 \<or> fA = 3 \<or> fA = 5"
  shows "in_range (ssa_candidate v fA s1 angle u) =
           (angle_in_range (num_at v fA) \<and> angle_in_range u
            \<and> angle_in_range (angleSum - angle - u)
            \<and> side_in_range (num_at v (slot fA 3)) \<and> side_in_range (num_at v (slot fA 5))
            \<and> side_in_range (s1 * (Math_sin (angleSum - angle - u) / Math_sin angle)))"
proof -
  from assms(1) obtain y0 y1 y2 y3 y4 y5 where v: "v = [y0, y1, y2, y3, y4, y5]"
    by (rule length_six)
  from assms(2) show ?thesis
    unfolding v
    by (elim disjE)
       (auto simp add: in_range_def ssa_candidate_def slot_def rem_js_def aget_def aset_def
          num_at_def Let_def)
qed

lemma ass_candidate_in_range:
  assumes "length v = 6" and "fA = 1 \<or> fA = 3 \<or> fA = 5"
  shows "in_range (ass_candidate v fA s1 angle u) =
           (angle_in_range (num_at v fA) \<and> angle_in_range u
            \<and> angle_in_range (angleSum - angle - u)
            \<and> side_in_range (num_at v (slot fA 3)) \<and> side_in_range (num_at v (slot fA 1))
            \<and> side_in_range (s1 * (Math_sin (angleSum - angle - u) / Math_sin angle)))"
proof -
  from assms(1) obtain y0 y1 y2 y3 y4 y5 where v: "v = [y0, y1, y2, y3, y4, y5]"
    by (rule length_six)
  from assms(2) show ?thesis
    unfolding v
    by (elim disjE)
       (auto simp add: in_range_def ass_candidate_def slot_def rem_js_def aget_def aset_def
          num_at_def Let_def)
qed

lemma ssa_obtuse_alternative:
  fixes \<theta> a b :: real
  assumes th: "0 < \<theta>" "\<theta> < pi" and ab: "0 < a" "a < b" and d: "(b / a) * sin \<theta> \<le> 1"
  shows "(0 < pi - \<theta> - arcsin ((b / a) * sin \<theta>)) = (\<theta> < pi / 2)"
    and "(0 < arcsin ((b / a) * sin \<theta>) - \<theta>) = (\<theta> < pi / 2)"
    and "0 < arcsin ((b / a) * sin \<theta>)" and "arcsin ((b / a) * sin \<theta>) \<le> pi / 2"
proof -
  define D where "D = (b / a) * sin \<theta>"
  have s: "0 < sin \<theta>" using th by (rule sin_gt_zero)
  have "1 < b / a" using ab by simp
  then have "1 * sin \<theta> < (b / a) * sin \<theta>" using s by (intro mult_strict_right_mono)
  then have lt: "sin \<theta> < D" unfolding D_def by simp
  have D: "0 < D" "D \<le> 1" "\<bar>D\<bar> \<le> 1" using lt s d by (simp_all add: D_def)
  have sb: "\<bar>sin \<theta>\<bar> \<le> 1" by simp
  have U: "0 < arcsin D" "arcsin D \<le> pi / 2"
    using D arcsin_less_mono [of 0 D] arcsin_ubound [of D] by simp_all
  have acute: "\<theta> < arcsin D" if "\<theta> < pi / 2"
  proof -
    have "arcsin (sin \<theta>) = \<theta>" using th that by (intro arcsin_sin) simp_all
    moreover have "arcsin (sin \<theta>) < arcsin D" using lt sb D by (simp add: arcsin_less_mono)
    ultimately show ?thesis by simp
  qed
  have obtuse: "pi - \<theta> < arcsin D" if "\<not> \<theta> < pi / 2"
  proof -
    have "arcsin (sin (pi - \<theta>)) = pi - \<theta>" using th that by (intro arcsin_sin) simp_all
    moreover have "arcsin (sin \<theta>) < arcsin D" using lt sb D by (simp add: arcsin_less_mono)
    ultimately show ?thesis by simp
  qed
  show "(0 < pi - \<theta> - arcsin ((b / a) * sin \<theta>)) = (\<theta> < pi / 2)"
    using acute obtuse U unfolding D_def [symmetric] by (cases "\<theta> < pi / 2") auto
  show "(0 < arcsin ((b / a) * sin \<theta>) - \<theta>) = (\<theta> < pi / 2)"
    using acute obtuse U unfolding D_def [symmetric] by (cases "\<theta> < pi / 2") auto
  show "0 < arcsin ((b / a) * sin \<theta>)" "arcsin ((b / a) * sin \<theta>) \<le> pi / 2"
    using U unfolding D_def by simp_all
qed


lemma ambiguous_pair:
  assumes "good_angle angle" "good_side s1" "good_side s2"
    and "\<not> (s2 / s1) * Math_sin angle > Fin 1" and "\<not> s1 \<ge> s2"
  shows "(angle_in_range (Math_asin ((s2 / s1) * Math_sin angle))
          \<and> angle_in_range (angleSum - angle - Math_asin ((s2 / s1) * Math_sin angle))
          \<and> side_in_range (s1 * (Math_sin (angleSum - angle
                                   - Math_asin ((s2 / s1) * Math_sin angle)) / Math_sin angle)))
         = (angle < Fin (pi / 2))"
    and "(angle_in_range (angleSum - Math_asin ((s2 / s1) * Math_sin angle))
          \<and> angle_in_range (angleSum - angle - (angleSum - Math_asin ((s2 / s1) * Math_sin angle)))
          \<and> side_in_range (s1 * (Math_sin (angleSum - angle
                                   - (angleSum - Math_asin ((s2 / s1) * Math_sin angle)))
                                 / Math_sin angle)))
         = (angle < Fin (pi / 2))"
proof -
  from assms(1) obtain t where t: "angle = Fin t" "0 < t" "t < pi"
    by (auto simp: good_angle_cases)
  have st: "0 < sin t" using t by (intro sin_gt_zero)
  from assms(2,3,5) obtain a where a: "s1 = Fin a" "0 < a"
    by (cases s1; cases s2) (auto simp: good_side_cases)
  from assms(3,4) a t st obtain b where b: "s2 = Fin b" "0 < b"
    by (cases s2) (auto simp: good_side_cases)
  from assms(5) a b have ab: "a < b" by simp
  define d where "d = (b / a) * sin t"
  have D: "(s2 / s1) * Math_sin angle = Fin d" using a b t by (simp add: d_def)
  from assms(4) have d1: "d \<le> 1" unfolding D by simp
  have d0: "0 < d" unfolding d_def using a b st by simp
  note alt = ssa_obtuse_alternative [OF t(2) t(3) a(2) ab d1 [unfolded d_def], folded d_def]
  define u where "u = arcsin d"
  have U: "Math_asin (Fin d) = Fin u" using d0 d1 by (simp add: u_def)
  have u: "0 < u" "u \<le> pi / 2" using alt(3,4) by (simp_all add: u_def)
  have upi: "u < pi" using u(2) pi_gt_zero by linarith
  have s1: "0 < sin (pi - t - u)" if "0 < pi - t - u"
    using that t u by (intro sin_gt_zero) simp_all
  have s2: "0 < sin (u - t)" if "0 < u - t"
    using that t upi by (intro sin_gt_zero) simp_all
  have side: "(0 < a * (x / sin t)) = (0 < x)" for x
    using a(2) st by (simp add: zero_less_mult_iff zero_less_divide_iff)
  show "(angle_in_range (Math_asin ((s2 / s1) * Math_sin angle))
          \<and> angle_in_range (angleSum - angle - Math_asin ((s2 / s1) * Math_sin angle))
          \<and> side_in_range (s1 * (Math_sin (angleSum - angle
                                   - Math_asin ((s2 / s1) * Math_sin angle)) / Math_sin angle)))
         = (angle < Fin (pi / 2))"
    unfolding D U
    using t a u upi st s1 alt(1) [folded u_def]
    by (auto simp add: angle_in_range_def side_in_range_def angleSum_def Math_PI_def not_le side)
  show "(angle_in_range (angleSum - Math_asin ((s2 / s1) * Math_sin angle))
          \<and> angle_in_range (angleSum - angle - (angleSum - Math_asin ((s2 / s1) * Math_sin angle)))
          \<and> side_in_range (s1 * (Math_sin (angleSum - angle
                                   - (angleSum - Math_asin ((s2 / s1) * Math_sin angle)))
                                 / Math_sin angle)))
         = (angle < Fin (pi / 2))"
    unfolding D U
    using t a u upi st s2 alt(2) [folded u_def]
    by (auto simp add: angle_in_range_def side_in_range_def angleSum_def Math_PI_def not_le side)
qed


lemma ssa_inputs:
  assumes "validated v" and "fA = 1 \<or> fA = 3 \<or> fA = 5" and "aget v fA \<noteq> Undefined"
    and "is_SSA v fA"
  shows "length v = 6" and "good_angle (num_at v fA)" and "good_side (num_at v (slot fA 3))"
    and "good_side (num_at v (slot fA 5))"
proof -
  from assms(1) obtain y0 y1 y2 y3 y4 y5 where v: "v = [y0, y1, y2, y3, y4, y5]"
    and s: "side_slot y0" "side_slot y2" "side_slot y4"
    and a: "angle_slot y1" "angle_slot y3" "angle_slot y5"
    by (auto simp: validated_def)
  show "length v = 6" by (simp add: v)
  from assms(2-4) a show "good_angle (num_at v fA)"
    unfolding v by (auto simp: aget_def num_at_def angle_slot_def)
  from assms(2,4) s show "good_side (num_at v (slot fA 3))"
    unfolding v by (auto simp: is_SSA_def slot_def rem_js_def aget_def num_at_def side_slot_def)
  from assms(2,4) s show "good_side (num_at v (slot fA 5))"
    unfolding v by (auto simp: is_SSA_def slot_def rem_js_def aget_def num_at_def side_slot_def)
qed

lemma ass_inputs:
  assumes "validated v" and "fA = 1 \<or> fA = 3 \<or> fA = 5" and "aget v fA \<noteq> Undefined"
    and "is_ASS v fA"
  shows "length v = 6" and "good_angle (num_at v fA)" and "good_side (num_at v (slot fA 3))"
    and "good_side (num_at v (slot fA 1))"
proof -
  from assms(1) obtain y0 y1 y2 y3 y4 y5 where v: "v = [y0, y1, y2, y3, y4, y5]"
    and s: "side_slot y0" "side_slot y2" "side_slot y4"
    and a: "angle_slot y1" "angle_slot y3" "angle_slot y5"
    by (auto simp: validated_def)
  show "length v = 6" by (simp add: v)
  from assms(2-4) a show "good_angle (num_at v fA)"
    unfolding v by (auto simp: aget_def num_at_def angle_slot_def)
  from assms(2,4) s show "good_side (num_at v (slot fA 3))"
    unfolding v by (auto simp: is_ASS_def slot_def rem_js_def aget_def num_at_def side_slot_def)
  from assms(2,4) s show "good_side (num_at v (slot fA 1))"
    unfolding v by (auto simp: is_ASS_def slot_def rem_js_def aget_def num_at_def side_slot_def)
qed

lemma ssa_candidate_keeps:
  assumes "length v = 6" and "fA = 1 \<or> fA = 3 \<or> fA = 5"
  shows "length (ssa_candidate v fA s1 angle u) = 6"
    and "num_at (ssa_candidate v fA s1 angle u) fA = num_at v fA"
    and "num_at (ssa_candidate v fA s1 angle u) (slot fA 3) = num_at v (slot fA 3)"
    and "num_at (ssa_candidate v fA s1 angle u) (slot fA 5) = num_at v (slot fA 5)"
proof -
  from assms(1) obtain y0 y1 y2 y3 y4 y5 where v: "v = [y0, y1, y2, y3, y4, y5]"
    by (rule length_six)
  note d = ssa_candidate_def slot_def rem_js_def aget_def aset_def num_at_def Let_def
  from assms(2) show "length (ssa_candidate v fA s1 angle u) = 6"
    unfolding v by (elim disjE) (simp_all add: d)
  from assms(2) show "num_at (ssa_candidate v fA s1 angle u) fA = num_at v fA"
    unfolding v by (elim disjE) (simp_all add: d)
  from assms(2) show "num_at (ssa_candidate v fA s1 angle u) (slot fA 3) = num_at v (slot fA 3)"
    unfolding v by (elim disjE) (simp_all add: d)
  from assms(2) show "num_at (ssa_candidate v fA s1 angle u) (slot fA 5) = num_at v (slot fA 5)"
    unfolding v by (elim disjE) (simp_all add: d)
qed

lemma ass_candidate_keeps:
  assumes "length v = 6" and "fA = 1 \<or> fA = 3 \<or> fA = 5"
  shows "length (ass_candidate v fA s1 angle u) = 6"
    and "num_at (ass_candidate v fA s1 angle u) fA = num_at v fA"
    and "num_at (ass_candidate v fA s1 angle u) (slot fA 3) = num_at v (slot fA 3)"
    and "num_at (ass_candidate v fA s1 angle u) (slot fA 1) = num_at v (slot fA 1)"
proof -
  from assms(1) obtain y0 y1 y2 y3 y4 y5 where v: "v = [y0, y1, y2, y3, y4, y5]"
    by (rule length_six)
  note d = ass_candidate_def slot_def rem_js_def aget_def aset_def num_at_def Let_def
  from assms(2) show "length (ass_candidate v fA s1 angle u) = 6"
    unfolding v by (elim disjE) (simp_all add: d)
  from assms(2) show "num_at (ass_candidate v fA s1 angle u) fA = num_at v fA"
    unfolding v by (elim disjE) (simp_all add: d)
  from assms(2) show "num_at (ass_candidate v fA s1 angle u) (slot fA 3) = num_at v (slot fA 3)"
    unfolding v by (elim disjE) (simp_all add: d)
  from assms(2) show "num_at (ass_candidate v fA s1 angle u) (slot fA 1) = num_at v (slot fA 1)"
    unfolding v by (elim disjE) (simp_all add: d)
qed

lemma good_in_range: "good_angle x \<Longrightarrow> angle_in_range x" "good_side y \<Longrightarrow> side_in_range y"
  by (simp_all add: good_angle_def good_side_def angle_in_range_def side_in_range_def)

lemma modeOutConv_of_update [simp]:
  "modeOutConv_of (r\<lparr>solutions := xs\<rparr>) = modeOutConv_of r"
  "modeOutConv_of (r\<lparr>error := e\<rparr>) = modeOutConv_of r"
  by (simp_all add: modeOutConv_of_def getprop_def)

lemma solve_SSA_cases:
  assumes v: "validated v" and fA: "fA = 1 \<or> fA = 3 \<or> fA = 5"
    and given: "aget v fA \<noteq> Undefined" and ssa: "is_SSA v fA" and pc: "pc \<le> 3"
  defines "s1 \<equiv> num_at v (slot fA 3)" and "s2 \<equiv> num_at v (slot fA 5)"
    and "angle \<equiv> num_at v fA"
  defines "D \<equiv> (s2 / s1) * Math_sin angle"
  defines "c \<equiv> ssa_candidate v fA s1 angle (if num_eq D (Fin 1) then Math_PI / Fin 2 else Math_asin D)"
    and "c1 \<equiv> ssa_candidate v fA s1 angle (Math_asin D)"
  defines "c2 \<equiv> ssa_candidate c1 fA s1 angle (angleSum - Math_asin D)"
  shows "solve_SSA v fA r pc =
     (if D > Fin 1 then r\<lparr>error := Some NoSolution\<rparr>
      else if s1 \<ge> s2
      then (if in_range c
            then r\<lparr>solutions := solutions r @ [make_solution c (modeOutConv_of r)]\<rparr>
            else r\<lparr>error := Some NoSolution\<rparr>)
      else (if angle < Fin (pi / 2)
            then r\<lparr>solutions := solutions r @ [make_solution c1 (modeOutConv_of r),
                                                 make_solution c2 (modeOutConv_of r)]\<rparr>
            else r\<lparr>error := Some NoSolution\<rparr>))"
proof -
  note inp = ssa_inputs [OF v fA given ssa, folded s1_def s2_def angle_def]
  have base: "solve_SSA v fA r pc =
     (if D > Fin 1 then r\<lparr>error := Some NoSolution\<rparr>
      else if s1 \<ge> s2 then addSolutionToResult c r pc
      else addSolutionToResult c2 (addSolutionToResult c1 r pc) pc)"
    unfolding solve_SSA_def Let_def c_def c1_def c2_def D_def s1_def s2_def angle_def
    by (rule refl)
  show ?thesis
  proof (cases "\<not> D > Fin 1 \<and> \<not> s1 \<ge> s2")
    case False
    then show ?thesis unfolding base by (auto simp add: addSolutionToResult_three [OF pc])
  next
    case True
    then have h: "\<not> (s2 / s1) * Math_sin angle > Fin 1" "\<not> s1 \<ge> s2" by (simp_all add: D_def)
    note pair = ambiguous_pair [OF inp(2) inp(3) inp(4) h, folded D_def]
    note k1 = ssa_candidate_keeps [OF inp(1) fA, of s1 angle "Math_asin D", folded c1_def]
    have r1: "in_range c1 = (angle < Fin (pi / 2))"
      unfolding c1_def ssa_candidate_in_range [OF inp(1) fA]
      using pair(1) inp good_in_range by (simp add: s1_def s2_def angle_def)
    have r2: "in_range c2 = (angle < Fin (pi / 2))"
      unfolding c2_def ssa_candidate_in_range [OF k1(1) fA] k1
      using pair(2) inp good_in_range by (simp add: s1_def s2_def angle_def)
    from True show ?thesis
      unfolding base by (simp add: addSolutionToResult_three [OF pc] r1 r2)
  qed
qed

lemma solve_ASS_cases:
  assumes v: "validated v" and fA: "fA = 1 \<or> fA = 3 \<or> fA = 5"
    and given: "aget v fA \<noteq> Undefined" and ass: "is_ASS v fA" and pc: "pc \<le> 3"
  defines "s1 \<equiv> num_at v (slot fA 3)" and "s2 \<equiv> num_at v (slot fA 1)"
    and "angle \<equiv> num_at v fA"
  defines "D \<equiv> (s2 / s1) * Math_sin angle"
  defines "c \<equiv> ass_candidate v fA s1 angle (if num_eq D (Fin 1) then Math_PI / Fin 2 else Math_asin D)"
    and "c1 \<equiv> ass_candidate v fA s1 angle (Math_asin D)"
  defines "c2 \<equiv> ass_candidate c1 fA s1 angle (angleSum - Math_asin D)"
  shows "solve_ASS v fA r pc =
     (if D > Fin 1 then r\<lparr>error := Some NoSolution\<rparr>
      else if s1 \<ge> s2
      then (if in_range c
            then r\<lparr>solutions := solutions r @ [make_solution c (modeOutConv_of r)]\<rparr>
            else r\<lparr>error := Some NoSolution\<rparr>)
      else (if angle < Fin (pi / 2)
            then r\<lparr>solutions := solutions r @ [make_solution c1 (modeOutConv_of r),
                                                 make_solution c2 (modeOutConv_of r)]\<rparr>
            else r\<lparr>error := Some NoSolution\<rparr>))"
proof -
  note inp = ass_inputs [OF v fA given ass, folded s1_def s2_def angle_def]
  have base: "solve_ASS v fA r pc =
     (if D > Fin 1 then r\<lparr>error := Some NoSolution\<rparr>
      else if s1 \<ge> s2 then addSolutionToResult c r pc
      else addSolutionToResult c2 (addSolutionToResult c1 r pc) pc)"
    unfolding solve_ASS_def Let_def c_def c1_def c2_def D_def s1_def s2_def angle_def
    by (rule refl)
  show ?thesis
  proof (cases "\<not> D > Fin 1 \<and> \<not> s1 \<ge> s2")
    case False
    then show ?thesis unfolding base by (auto simp add: addSolutionToResult_three [OF pc])
  next
    case True
    then have h: "\<not> (s2 / s1) * Math_sin angle > Fin 1" "\<not> s1 \<ge> s2" by (simp_all add: D_def)
    note pair = ambiguous_pair [OF inp(2) inp(3) inp(4) h, folded D_def]
    note k1 = ass_candidate_keeps [OF inp(1) fA, of s1 angle "Math_asin D", folded c1_def]
    have r1: "in_range c1 = (angle < Fin (pi / 2))"
      unfolding c1_def ass_candidate_in_range [OF inp(1) fA]
      using pair(1) inp good_in_range by (simp add: s1_def s2_def angle_def)
    have r2: "in_range c2 = (angle < Fin (pi / 2))"
      unfolding c2_def ass_candidate_in_range [OF k1(1) fA] k1
      using pair(2) inp good_in_range by (simp add: s1_def s2_def angle_def)
    from True show ?thesis
      unfolding base by (simp add: addSolutionToResult_three [OF pc] r1 r2)
  qed
qed

lemma analyse_stages:
  fixes t :: triangleToSolve
  defines "mode \<equiv> (if t_mode t = Undefined then Str ''deg'' else t_mode t)"
  defines "result \<equiv> remove_undefined (initial_result t mode)"
  defines "valArray \<equiv> [getprop result ''a'', getprop result ''gamma'',
    getprop result ''b'', getprop result ''alpha'', getprop result ''c'', getprop result ''beta'']"
  defines "conv \<equiv> (if mode = Str ''deg'' then toRad else Fin 1)"
  shows "analyse t =
     (if mode \<noteq> Str ''deg'' \<and> mode \<noteq> Str ''rad'' then Inl (UnknownMode mode)
      else case validate_sides [0, 2, 4] valArray (- 1) 0 of
             Inl e \<Rightarrow> Inl e
           | Inr (v1, firstSide, sideCount) \<Rightarrow>
               (case validate_angles [1, 3, 5] conv v1 (- 1) 0 of
                  Inl e \<Rightarrow> Inl e
                | Inr (v2, firstAngle, angleCount) \<Rightarrow>
                    Inr (v2, firstSide, sideCount, firstAngle, angleCount)))"
  unfolding analyse_def result_of_def Let_def mode_def result_def valArray_def conv_def
  by (rule refl)

lemma solve_analyse:
  "solve t = (case analyse t of
                Inl e \<Rightarrow> (result_of t)\<lparr>error := Some e\<rparr>
              | Inr (v, fS, sC, fA, aC) \<Rightarrow>
                  solve_cases (t_a t) (t_b t) (t_c t) v fS sC fA aC (result_of t))"
proof -
  define mode where "mode = (if t_mode t = Undefined then Str ''deg'' else t_mode t)"
  define result where "result = remove_undefined (initial_result t mode)"
  define valArray where "valArray = [getprop result ''a'', getprop result ''gamma'',
    getprop result ''b'', getprop result ''alpha'', getprop result ''c'', getprop result ''beta'']"
  define conv where "conv = (if mode = Str ''deg'' then toRad else Fin 1)"
  note st = solve_stages [of t, folded mode_def, folded result_def, folded valArray_def,
      folded conv_def]
  note an = analyse_stages [of t, folded mode_def, folded result_def, folded valArray_def,
      folded conv_def]
  have r: "result_of t = result" by (simp add: result_of_def result_def mode_def)
  from st consider
      (mode) "mode \<noteq> Str ''deg'' \<and> mode \<noteq> Str ''rad''"
        "solve t = result\<lparr>error := Some (UnknownMode mode)\<rparr>"
    | (sides) e where "mode = Str ''deg'' \<or> mode = Str ''rad''"
        "validate_sides [0, 2, 4] valArray (- 1) 0 = Inl e" "solve t = result\<lparr>error := Some e\<rparr>"
    | (angles) e v1 fS sC where "mode = Str ''deg'' \<or> mode = Str ''rad''"
        "validate_sides [0, 2, 4] valArray (- 1) 0 = Inr (v1, fS, sC)"
        "validate_angles [1, 3, 5] conv v1 (- 1) 0 = Inl e" "solve t = result\<lparr>error := Some e\<rparr>"
    | (ok) v1 fS sC v fA aC where "mode = Str ''deg'' \<or> mode = Str ''rad''"
        "validate_sides [0, 2, 4] valArray (- 1) 0 = Inr (v1, fS, sC)"
        "validate_angles [1, 3, 5] conv v1 (- 1) 0 = Inr (v, fA, aC)"
        "solve t = solve_cases (t_a t) (t_b t) (t_c t) v fS sC fA aC result"
    by blast
  then show ?thesis
  proof cases
    case mode
    then show ?thesis unfolding an r by simp
  next
    case sides
    have "analyse t = Inl e" unfolding an using sides(1,2) by auto
    then show ?thesis using sides(3) r by simp
  next
    case angles
    have "analyse t = Inl e" unfolding an using angles(1,2,3) by auto
    then show ?thesis using angles(4) r by simp
  next
    case ok
    have "analyse t = Inr (v, fS, sC, fA, aC)" unfolding an using ok(1,2,3) by auto
    then show ?thesis using ok(4) r by simp
  qed
qed

lemma analyse_validated:
  assumes "analyse t = Inr (v, fS, sC, fA, aC)"
  shows "validated v" and "fS = first_given v [0, 2, 4]" and "sC = count_given v [0, 2, 4]"
    and "fA = first_given v [1, 3, 5]" and "aC = count_given v [1, 3, 5]"
proof -
  define mode where "mode = (if t_mode t = Undefined then Str ''deg'' else t_mode t)"
  define result where "result = remove_undefined (initial_result t mode)"
  define valArray where "valArray = [getprop result ''a'', getprop result ''gamma'',
    getprop result ''b'', getprop result ''alpha'', getprop result ''c'', getprop result ''beta'']"
  define conv where "conv = (if mode = Str ''deg'' then toRad else Fin 1)"
  note an = analyse_stages [of t, folded mode_def, folded result_def, folded valArray_def,
      folded conv_def]
  from assms [unfolded an] obtain v1 where
    "validate_sides [0, 2, 4] valArray (- 1) 0 = Inr (v1, fS, sC)"
    "validate_angles [1, 3, 5] conv v1 (- 1) 0 = Inr (v, fA, aC)"
    by (auto split: if_splits sum.splits prod.splits)
  from validation_result [OF this(1) [unfolded valArray_def] this(2)]
  show "validated v" and "fS = first_given v [0, 2, 4]" and "sC = count_given v [0, 2, 4]"
    and "fA = first_given v [1, 3, 5]" and "aC = count_given v [1, 3, 5]"
    by simp_all
qed

lemma result_of_empty: "solutions (result_of t) = []" "error (result_of t) = None"
  by (simp_all add: result_of_def remove_undefined_def initial_result_def)

lemma first_given_angle:
  assumes "validated v" and "count_given v [1, 3, 5] \<noteq> 0"
  shows "first_given v [1, 3, 5] = 1 \<or> first_given v [1, 3, 5] = 3 \<or> first_given v [1, 3, 5] = 5"
    and "aget v (first_given v [1, 3, 5]) \<noteq> Undefined"
proof -
  from assms(1) obtain y0 y1 y2 y3 y4 y5 where v: "v = [y0, y1, y2, y3, y4, y5]"
    by (auto simp: validated_def)
  from assms(2) show "first_given v [1, 3, 5] = 1 \<or> first_given v [1, 3, 5] = 3
      \<or> first_given v [1, 3, 5] = 5"
    unfolding v by (auto simp add: first_given_def count_given_def aget_def)
  from assms(2) show "aget v (first_given v [1, 3, 5]) \<noteq> Undefined"
    unfolding v by (auto simp add: first_given_def count_given_def aget_def)
qed


lemma count_given_le: "count_given v [i, j, k] \<le> 3"
  by (simp add: count_given_def)

lemma classified_SSA_solve:
  assumes "classified_SSA t v fA"
  shows "solve t = solve_SSA v fA (result_of t) 3" and "validated v"
    and "fA = 1 \<or> fA = 3 \<or> fA = 5" and "aget v fA \<noteq> Undefined" and "is_SSA v fA"
proof -
  from assms obtain fS sC aC where an: "analyse t = Inr (v, fS, sC, fA, aC)"
    and c: "3 \<le> aC + sC" "sC \<noteq> 0" "sC \<noteq> 3"
    and b: "\<not> is_ASA v fS" "\<not> is_SAS v fA" "\<not> is_SAA v fS" "\<not> is_AAS v fS" "is_SSA v fA"
    by (auto simp: classified_SSA_def)
  note val = analyse_validated [OF an]
  show "validated v" by (rule val(1))
  show "is_SSA v fA" by (rule b(5))
  have pc: "aC + sC = 3"
  proof (rule ccontr)
    assume "aC + sC \<noteq> 3"
    with c(1) have "count_given v [0, 2, 4] + count_given v [1, 3, 5] > 3"
      using val(3,5) by simp
    from redundant_input_branch [OF val(1) this] c(2,3) b val(2,3,4) show False by simp
  qed
  have "sC \<le> 3" unfolding val(3) by (rule count_given_le)
  with c(3) pc have "count_given v [1, 3, 5] \<noteq> 0" using val(5) by simp
  from first_given_angle [OF val(1) this]
  show "fA = 1 \<or> fA = 3 \<or> fA = 5" and "aget v fA \<noteq> Undefined"
    unfolding val(4) by simp_all
  show "solve t = solve_SSA v fA (result_of t) 3"
    unfolding solve_analyse an using c b pc by (simp add: solve_cases_def)
qed

lemma classified_ASS_solve:
  assumes "classified_ASS t v fA"
  shows "solve t = solve_ASS v fA (result_of t) 3" and "validated v"
    and "fA = 1 \<or> fA = 3 \<or> fA = 5" and "aget v fA \<noteq> Undefined" and "is_ASS v fA"
proof -
  from assms obtain fS sC aC where an: "analyse t = Inr (v, fS, sC, fA, aC)"
    and c: "3 \<le> aC + sC" "sC \<noteq> 0" "sC \<noteq> 3"
    and b: "\<not> is_ASA v fS" "\<not> is_SAS v fA" "\<not> is_SAA v fS" "\<not> is_AAS v fS" "\<not> is_SSA v fA"
      "is_ASS v fA"
    by (auto simp: classified_ASS_def)
  note val = analyse_validated [OF an]
  show "validated v" by (rule val(1))
  show "is_ASS v fA" by (rule b(6))
  have pc: "aC + sC = 3"
  proof (rule ccontr)
    assume "aC + sC \<noteq> 3"
    with c(1) have "count_given v [0, 2, 4] + count_given v [1, 3, 5] > 3"
      using val(3,5) by simp
    from redundant_input_branch [OF val(1) this] c(2,3) b val(2,3,4) show False by simp
  qed
  have "sC \<le> 3" unfolding val(3) by (rule count_given_le)
  with c(3) pc have "count_given v [1, 3, 5] \<noteq> 0" using val(5) by simp
  from first_given_angle [OF val(1) this]
  show "fA = 1 \<or> fA = 3 \<or> fA = 5" and "aget v fA \<noteq> Undefined"
    unfolding val(4) by simp_all
  show "solve t = solve_ASS v fA (result_of t) 3"
    unfolding solve_analyse an using c b pc by (simp add: solve_cases_def)
qed

lemma ssa_unknown_angle:
  assumes "length v = 6" and "fA = 1 \<or> fA = 3 \<or> fA = 5"
  shows "num_at (ssa_candidate v fA s1 angle u) (slot fA 2) = u"
proof -
  from assms(1) obtain y0 y1 y2 y3 y4 y5 where v: "v = [y0, y1, y2, y3, y4, y5]"
    by (rule length_six)
  from assms(2) show ?thesis
    unfolding v
    by (elim disjE)
       (simp_all add: ssa_candidate_def slot_def rem_js_def aget_def aset_def num_at_def Let_def)
qed

lemma ass_unknown_angle:
  assumes "length v = 6" and "fA = 1 \<or> fA = 3 \<or> fA = 5"
  shows "num_at (ass_candidate v fA s1 angle u) (slot fA 4) = u"
proof -
  from assms(1) obtain y0 y1 y2 y3 y4 y5 where v: "v = [y0, y1, y2, y3, y4, y5]"
    by (rule length_six)
  from assms(2) show ?thesis
    unfolding v
    by (elim disjE)
       (simp_all add: ass_candidate_def slot_def rem_js_def aget_def aset_def num_at_def Let_def)
qed

lemma ambiguous_SSA:
  assumes h: "classified_SSA t v fA"
  shows "let s1 = num_at v (slot fA 3); s2 = num_at v (slot fA 5); angle = num_at v fA;
           D = (s2 / s1) * Math_sin angle;
           c = ssa_candidate v fA s1 angle
                 (if num_eq D (Fin 1) then Math_PI / Fin 2 else Math_asin D);
           c1 = ssa_candidate v fA s1 angle (Math_asin D);
           c2 = ssa_candidate c1 fA s1 angle (angleSum - Math_asin D);
           r = result_of t
       in solve t =
            (if D > Fin 1 then r\<lparr>error := Some NoSolution\<rparr>
             else if s1 \<ge> s2
             then (if in_range c then r\<lparr>solutions := [make_solution c (modeOutConv_of r)]\<rparr>
                   else r\<lparr>error := Some NoSolution\<rparr>)
             else (if in_range c1 \<and> in_range c2
                   then r\<lparr>solutions := [make_solution c1 (modeOutConv_of r),
                                          make_solution c2 (modeOutConv_of r)]\<rparr>
                   else r\<lparr>error := Some NoSolution\<rparr>))
          \<and> num_at c (slot fA 2) = (if num_eq D (Fin 1) then Math_PI / Fin 2 else Math_asin D)
          \<and> num_at c1 (slot fA 2) = Math_asin D
          \<and> num_at c2 (slot fA 2) = angleSum - Math_asin D
          \<and> (if D > Fin 1 \<or> s1 \<ge> s2 then True
              else in_range c1 = in_range c2 \<and> in_range c1 = (angle < Fin (pi / 2)))"
proof -
  note cs = classified_SSA_solve [OF h]
  note inp = ssa_inputs [OF cs(2) cs(3) cs(4) cs(5)]
  define s1 where "s1 = num_at v (slot fA 3)"
  define s2 where "s2 = num_at v (slot fA 5)"
  define angle where "angle = num_at v fA"
  define D where "D = (s2 / s1) * Math_sin angle"
  define c1 where "c1 = ssa_candidate v fA s1 angle (Math_asin D)"
  define c2 where "c2 = ssa_candidate c1 fA s1 angle (angleSum - Math_asin D)"
  note k1 = ssa_candidate_keeps [OF inp(1) cs(3), of s1 angle "Math_asin D", folded c1_def]
  have u1: "num_at c1 (slot fA 2) = Math_asin D"
    unfolding c1_def by (rule ssa_unknown_angle [OF inp(1) cs(3)])
  have u2: "num_at c2 (slot fA 2) = angleSum - Math_asin D"
    unfolding c2_def by (rule ssa_unknown_angle [OF k1(1) cs(3)])
  have pair: "in_range c1 = (angle < Fin (pi / 2))" "in_range c2 = (angle < Fin (pi / 2))"
    if "\<not> D > Fin 1" "\<not> s1 \<ge> s2"
  proof -
    from that have h: "\<not> (s2 / s1) * Math_sin angle > Fin 1" "\<not> s1 \<ge> s2" by (simp_all add: D_def)
    note p = ambiguous_pair [OF inp(2) [folded angle_def] inp(3) [folded s1_def]
        inp(4) [folded s2_def] h, folded D_def]
    show "in_range c1 = (angle < Fin (pi / 2))"
      unfolding c1_def ssa_candidate_in_range [OF inp(1) cs(3)]
      using p(1) inp good_in_range by (simp add: s1_def s2_def angle_def)
    show "in_range c2 = (angle < Fin (pi / 2))"
      unfolding c2_def ssa_candidate_in_range [OF k1(1) cs(3)] k1
      using p(2) inp good_in_range by (simp add: s1_def s2_def angle_def)
  qed
  show ?thesis
    unfolding Let_def cs(1) solve_SSA_cases [OF cs(2) cs(3) cs(4) cs(5) order_refl]
    unfolding s1_def [symmetric] s2_def [symmetric] angle_def [symmetric]
    unfolding D_def [symmetric]
    unfolding c1_def [symmetric]
    unfolding c2_def [symmetric]
    using pair u1 u2
    by (simp add: result_of_empty ssa_unknown_angle [OF inp(1) cs(3)])
qed

lemma ambiguous_ASS:
  assumes h: "classified_ASS t v fA"
  shows "let s1 = num_at v (slot fA 3); s2 = num_at v (slot fA 1); angle = num_at v fA;
           D = (s2 / s1) * Math_sin angle;
           c = ass_candidate v fA s1 angle
                 (if num_eq D (Fin 1) then Math_PI / Fin 2 else Math_asin D);
           c1 = ass_candidate v fA s1 angle (Math_asin D);
           c2 = ass_candidate c1 fA s1 angle (angleSum - Math_asin D);
           r = result_of t
       in solve t =
            (if D > Fin 1 then r\<lparr>error := Some NoSolution\<rparr>
             else if s1 \<ge> s2
             then (if in_range c then r\<lparr>solutions := [make_solution c (modeOutConv_of r)]\<rparr>
                   else r\<lparr>error := Some NoSolution\<rparr>)
             else (if in_range c1 \<and> in_range c2
                   then r\<lparr>solutions := [make_solution c1 (modeOutConv_of r),
                                          make_solution c2 (modeOutConv_of r)]\<rparr>
                   else r\<lparr>error := Some NoSolution\<rparr>))
          \<and> num_at c (slot fA 4) = (if num_eq D (Fin 1) then Math_PI / Fin 2 else Math_asin D)
          \<and> num_at c1 (slot fA 4) = Math_asin D
          \<and> num_at c2 (slot fA 4) = angleSum - Math_asin D
          \<and> (if D > Fin 1 \<or> s1 \<ge> s2 then True
              else in_range c1 = in_range c2 \<and> in_range c1 = (angle < Fin (pi / 2)))"
proof -
  note cs = classified_ASS_solve [OF h]
  note inp = ass_inputs [OF cs(2) cs(3) cs(4) cs(5)]
  define s1 where "s1 = num_at v (slot fA 3)"
  define s2 where "s2 = num_at v (slot fA 1)"
  define angle where "angle = num_at v fA"
  define D where "D = (s2 / s1) * Math_sin angle"
  define c1 where "c1 = ass_candidate v fA s1 angle (Math_asin D)"
  define c2 where "c2 = ass_candidate c1 fA s1 angle (angleSum - Math_asin D)"
  note k1 = ass_candidate_keeps [OF inp(1) cs(3), of s1 angle "Math_asin D", folded c1_def]
  have u1: "num_at c1 (slot fA 4) = Math_asin D"
    unfolding c1_def by (rule ass_unknown_angle [OF inp(1) cs(3)])
  have u2: "num_at c2 (slot fA 4) = angleSum - Math_asin D"
    unfolding c2_def by (rule ass_unknown_angle [OF k1(1) cs(3)])
  have pair: "in_range c1 = (angle < Fin (pi / 2))" "in_range c2 = (angle < Fin (pi / 2))"
    if "\<not> D > Fin 1" "\<not> s1 \<ge> s2"
  proof -
    from that have h: "\<not> (s2 / s1) * Math_sin angle > Fin 1" "\<not> s1 \<ge> s2" by (simp_all add: D_def)
    note p = ambiguous_pair [OF inp(2) [folded angle_def] inp(3) [folded s1_def]
        inp(4) [folded s2_def] h, folded D_def]
    show "in_range c1 = (angle < Fin (pi / 2))"
      unfolding c1_def ass_candidate_in_range [OF inp(1) cs(3)]
      using p(1) inp good_in_range by (simp add: s1_def s2_def angle_def)
    show "in_range c2 = (angle < Fin (pi / 2))"
      unfolding c2_def ass_candidate_in_range [OF k1(1) cs(3)] k1
      using p(2) inp good_in_range by (simp add: s1_def s2_def angle_def)
  qed
  show ?thesis
    unfolding Let_def cs(1) solve_ASS_cases [OF cs(2) cs(3) cs(4) cs(5) order_refl]
    unfolding s1_def [symmetric] s2_def [symmetric] angle_def [symmetric]
    unfolding D_def [symmetric]
    unfolding c1_def [symmetric]
    unfolding c2_def [symmetric]
    using pair u1 u2
    by (simp add: result_of_empty ass_unknown_angle [OF inp(1) cs(3)])
qed


lemma addSolutionToResult_consistent:
  assumes "error r = None" and "solutions r = []"
    and "error (addSolutionToResult v r pc) \<noteq> None"
  shows "solutions (addSolutionToResult v r pc) = []"
  using assms by (auto simp: addSolutionToResult_def Let_def split: option.splits if_splits)

lemma single_candidate_branches:
  "\<exists>c. solve_ASA v f r pc = addSolutionToResult c r pc"
  "\<exists>c. solve_SAS v f r pc = addSolutionToResult c r pc"
  "\<exists>c. solve_SAA v f r pc = addSolutionToResult c r pc"
  "\<exists>c. solve_AAS v f r pc = addSolutionToResult c r pc"
  "solve_SSS a b c0 v r pc = r\<lparr>error := Some (ImpossibleSides a b c0)\<rparr>
   \<or> (\<exists>c. solve_SSS a b c0 v r pc = addSolutionToResult c r pc)"
  unfolding solve_ASA_def solve_SAS_def solve_SAA_def solve_AAS_def solve_SSS_def Let_def
  by auto

text \<open>
  With exact arithmetic an envelope with the error set has no solutions: an input with
  more than 3 parameters never reaches the two-candidate branches
  (\<open>redundant_input_branch\<close>), and there the two candidates are accepted or rejected
  together (\<open>ambiguous_pair\<close>).  Nothing in the program removes a solution, though: see
  \<open>rejected_candidate_keeps_solutions\<close> below.
\<close>

lemma exact_error_excludes_solutions:
  assumes "error (solve t) \<noteq> None"
  shows "solutions (solve t) = []"
proof (cases "analyse t")
  case (Inl e)
  then show ?thesis by (simp add: solve_analyse result_of_empty)
next
  case (Inr st)
  then obtain v fS sC fA aC where an: "analyse t = Inr (v, fS, sC, fA, aC)"
    by (cases st) auto
  define r where "r = result_of t"
  have r: "error r = None" "solutions r = []" by (simp_all add: r_def result_of_empty)
  have eq: "solve t = solve_cases (t_a t) (t_b t) (t_c t) v fS sC fA aC r"
    by (simp add: solve_analyse an r_def)
  note add = addSolutionToResult_consistent [OF r]
  consider (few) "aC + sC < 3" | (noside) "sC = 0" | (sss) "3 \<le> aC + sC" "sC = 3"
    | (asa) "3 \<le> aC + sC" "sC \<noteq> 0" "sC \<noteq> 3" "is_ASA v fS"
    | (sas) "3 \<le> aC + sC" "sC \<noteq> 0" "sC \<noteq> 3" "\<not> is_ASA v fS" "is_SAS v fA"
    | (saa) "3 \<le> aC + sC" "sC \<noteq> 0" "sC \<noteq> 3" "\<not> is_ASA v fS" "\<not> is_SAS v fA" "is_SAA v fS"
    | (aas) "3 \<le> aC + sC" "sC \<noteq> 0" "sC \<noteq> 3" "\<not> is_ASA v fS" "\<not> is_SAS v fA"
        "\<not> is_SAA v fS" "is_AAS v fS"
    | (ssa) "classified_SSA t v fA"
    | (ass) "classified_ASS t v fA"
    | (none) "3 \<le> aC + sC" "sC \<noteq> 0" "sC \<noteq> 3" "\<not> is_ASA v fS" "\<not> is_SAS v fA"
        "\<not> is_SAA v fS" "\<not> is_AAS v fS" "\<not> is_SSA v fA" "\<not> is_ASS v fA"
    using an unfolding classified_SSA_def classified_ASS_def by (cases "aC + sC < 3") auto
  then show ?thesis
  proof cases
    case few
    then show ?thesis unfolding eq by (simp add: solve_cases_def r)
  next
    case noside
    then show ?thesis unfolding eq by (simp add: solve_cases_def r)
  next
    case sss
    then show ?thesis
      using assms add single_candidate_branches(5) [of "t_a t" "t_b t" "t_c t" v r "aC + sC"]
      unfolding eq by (auto simp add: solve_cases_def r)
  next
    case asa
    then show ?thesis
      using assms add single_candidate_branches(1) [of v fS r "aC + sC"]
      unfolding eq by (auto simp add: solve_cases_def)
  next
    case sas
    then show ?thesis
      using assms add single_candidate_branches(2) [of v fA r "aC + sC"]
      unfolding eq by (auto simp add: solve_cases_def)
  next
    case saa
    then show ?thesis
      using assms add single_candidate_branches(3) [of v fS r "aC + sC"]
      unfolding eq by (auto simp add: solve_cases_def)
  next
    case aas
    then show ?thesis
      using assms add single_candidate_branches(4) [of v fS r "aC + sC"]
      unfolding eq by (auto simp add: solve_cases_def)
  next
    case ssa
    from ambiguous_SSA [OF this] assms show ?thesis
      by (simp add: Let_def result_of_empty split: if_splits)
  next
    case ass
    from ambiguous_ASS [OF this] assms show ?thesis
      by (simp add: Let_def result_of_empty split: if_splits)
  next
    case none
    then show ?thesis using assms unfolding eq by (simp add: solve_cases_def r)
  qed
qed






text \<open>
  Claim C2.  The validation step only ever appends a solution or sets the error; it never
  empties the list.  Whatever the envelope holds already, validating a candidate whose
  third angle and third side are 0 returns the same envelope with the error set, all
  earlier solutions kept.  This is the second candidate that the SSA branch computes
  with IEEE doubles for \<open>solve({alpha: 0.125, a: 1, b: 1.0000000000000002, mode: "rad"})\<close>,
  where \<open>Math.PI - Math.asin(D)\<close> rounds to \<open>Math.PI - 0.125\<close>, after the first
  candidate has been accepted.
\<close>

theorem rejected_candidate_keeps_solutions:
  "addSolutionToResult
     [Num (Fin 1), Num (Fin 0), Num (Fin (1 + 1 / 2 ^ 52)), Num (Fin (1 / 8)), Num (Fin 0),
      Num (Fin (pi - 1 / 8))] result 3
     = result\<lparr>error := Some NoSolution\<rparr>"
  by (simp add: addSolutionToResult_def num_at_def aget_def angleSum_def Math_PI_def Let_def)

section \<open>Conflicts between the input and the solved six-tuple\<close>














end
